theory Spec2Isabelle
  imports Main "HOL-Library.Sublist" "HOL-Library.Multiset"
begin

section \<open>Values of the JavaScript program\<close>

text \<open>
  The server (\<^verbatim>\<open>src/server.js\<close>) is an Express application over a MySQL database and a
  directory of uploaded files. Strings are byte strings; a form field of \<^verbatim>\<open>req.body\<close> is
  either missing (\<^verbatim>\<open>undefined\<close>, here \<open>None\<close>) or a string. A nullable column holds
  \<open>None\<close> for SQL \<^verbatim>\<open>NULL\<close>.
\<close>

type_synonym bytes = "nat list"

type_synonym field = "string option"

text \<open>JavaScript truthiness of such a value: \<^verbatim>\<open>!v\<close> holds for \<^verbatim>\<open>undefined\<close>,
  \<^verbatim>\<open>null\<close> and the empty string.\<close>

definition truthy :: "field \<Rightarrow> bool" where
  "truthy v = (case v of None \<Rightarrow> False | Some s \<Rightarrow> s \<noteq> [])"

text \<open>The expression \<^verbatim>\<open>v || null\<close>.\<close>

definition or_null :: "field \<Rightarrow> string option" where
  "or_null v = (if truthy v then v else None)"

subsection \<open>Numbers as decimal strings\<close>

text \<open>String concatenation \<^verbatim>\<open>Date.now() + '-' + Math.round(...)\<close> renders a non-negative
  integer below \<open>10^21\<close> in decimal, without sign or exponent.\<close>

definition digit :: "nat \<Rightarrow> char" where
  "digit d = ''0123456789'' ! d"

fun number_to_string :: "nat \<Rightarrow> string" where
  "number_to_string n =
     (if n < 10 then [digit n] else number_to_string (n div 10) @ [digit (n mod 10)])"

declare number_to_string.simps [simp del]

definition is_digit :: "char \<Rightarrow> bool" where
  "is_digit c = (c \<in> set ''0123456789'')"

text \<open>Reading a decimal string back; used to show that the rendering loses nothing.\<close>

definition digit_value :: "char \<Rightarrow> nat" where
  "digit_value c = length (takeWhile (\<lambda>d. d \<noteq> c) ''0123456789'')"

definition parse_digits :: "string \<Rightarrow> nat" where
  "parse_digits s = foldl (\<lambda>a c. 10 * a + digit_value c) 0 s"

subsection \<open>Node's path.extname and String.prototype.toLowerCase\<close>

text \<open>
  \<^verbatim>\<open>path.extname(p)\<close> (POSIX), as Node documents it: the extension of the last portion of the
  path, from its last \<^verbatim>\<open>.\<close> to the end; the empty string when that portion has no \<^verbatim>\<open>.\<close>, when
  its only \<^verbatim>\<open>.\<close> is its first character, or when the portion is \<^verbatim>\<open>..\<close>. Trailing
  separators are ignored.
\<close>

definition last_portion :: "string \<Rightarrow> string" where
  "last_portion p =
     rev (takeWhile (\<lambda>c. c \<noteq> CHR ''/'') (dropWhile (\<lambda>c. c = CHR ''/'') (rev p)))"

definition extname :: "string \<Rightarrow> string" where
  "extname p =
     (let seg = last_portion p;
          after_dot = rev (takeWhile (\<lambda>c. c \<noteq> CHR ''.'') (rev seg))
      in if CHR ''.'' \<notin> set seg then []
         else if length seg = Suc (length after_dot) then []
         else if seg = ''..'' then []
         else CHR ''.'' # after_dot)"

definition lower_char :: "char \<Rightarrow> char" where
  "lower_char c =
     (let n = (of_char c :: nat) in if 65 \<le> n \<and> n \<le> 90 then char_of (n + 32) else c)"

definition toLowerCase :: "string \<Rightarrow> string" where
  "toLowerCase s = map lower_char s"

section \<open>Database tables and the uploads directory\<close>

text \<open>
  The two tables created by \<^verbatim>\<open>initDatabase\<close> (lines 71--91). A row of \<^verbatim>\<open>products\<close> has
  the \<^verbatim>\<open>NOT NULL\<close> columns as strings and the nullable ones as options; timestamps are
  whole seconds, the resolution of a MySQL \<^verbatim>\<open>TIMESTAMP\<close> column.
\<close>

record product =
  row_id :: nat
  name :: string
  description :: string
  price :: string
  icon :: "string option"
  image :: "string option"
  created_at :: nat
  updated_at :: nat

record admin_row =
  admin_id :: nat
  username :: string
  password :: string

text \<open>
  The state the handlers act on: the rows of both tables in primary-key (insertion) order,
  the next \<^verbatim>\<open>AUTO_INCREMENT\<close> value of \<^verbatim>\<open>products\<close>, and the files on disk. The process is
  taken to run in the directory of \<^verbatim>\<open>server.js\<close>, as the code itself assumes when it writes
  below \<^verbatim>\<open>uploads/\<close> and deletes below \<^verbatim>\<open>__dirname\<close>; a file is named by its path below that
  directory, which is also the URL path under which \<^verbatim>\<open>express.static\<close> serves it.
\<close>

record world =
  products_tbl :: "product list"
  auto_increment :: nat
  admin_tbl :: "admin_row list"
  disk :: "string \<rightharpoonup> bytes"

text \<open>
  What the environment may do to one request: every \<^verbatim>\<open>pool.query\<close>, \<^verbatim>\<open>fs.unlinkSync\<close> and
  disk write can throw (connection lost, a value the server refuses, a permission). The
  handlers stop at the first exception, so one request meets at most one; \<open>QueryFails k\<close>
  says that the \<open>k\<close>-th \<^verbatim>\<open>pool.query\<close> of the handler throws.
\<close>

datatype fault = NoFault | QueryFails nat | UnlinkFails | WriteFails

definition query_throws :: "fault \<Rightarrow> nat \<Rightarrow> bool" where
  "query_throws flt k = (flt = QueryFails k)"

subsection \<open>The SQL statements\<close>

text \<open>\<^verbatim>\<open>SELECT * FROM products WHERE id = ?\<close>; the path parameter \<^verbatim>\<open>:id\<close> is taken as the
  number the database reads it as.\<close>

definition select_by_id :: "nat \<Rightarrow> world \<Rightarrow> product list" where
  "select_by_id i w = filter (\<lambda>r. row_id r = i) (products_tbl w)"

text \<open>
  \<^verbatim>\<open>INSERT INTO products (name, description, price, icon, image) VALUES (?, ?, ?, ?, ?)\<close>.
  The new row takes the next \<^verbatim>\<open>AUTO_INCREMENT\<close> id and the server's clock for both
  timestamps. A \<^verbatim>\<open>NULL\<close> for a \<^verbatim>\<open>NOT NULL\<close> column is refused (\<open>None\<close>): the driver
  throws. The result is the \<^verbatim>\<open>insertId\<close> and the new state.
\<close>

definition inserted_row ::
  "nat \<Rightarrow> string \<Rightarrow> string \<Rightarrow> string \<Rightarrow> string option \<Rightarrow> string option \<Rightarrow> nat \<Rightarrow> product" where
  "inserted_row i n d p ic im now =
     \<lparr>row_id = i, name = n, description = d, price = p, icon = ic, image = im,
      created_at = now, updated_at = now\<rparr>"

definition insert_product ::
  "field \<Rightarrow> field \<Rightarrow> field \<Rightarrow> string option \<Rightarrow> string option \<Rightarrow> nat \<Rightarrow> world
     \<Rightarrow> (nat \<times> world) option" where
  "insert_product n d p ic im now w =
     (case (n, d, p) of
        (Some n', Some d', Some p') \<Rightarrow>
          Some (auto_increment w,
                w\<lparr>products_tbl :=
                     products_tbl w @ [inserted_row (auto_increment w) n' d' p' ic im now],
                   auto_increment := Suc (auto_increment w)\<rparr>)
      | _ \<Rightarrow> None)"

text \<open>
  \<^verbatim>\<open>UPDATE products SET name = ?, description = ?, price = ?, icon = ?, image = ? WHERE id = ?\<close>.
  \<^verbatim>\<open>updated_at\<close> is declared \<^verbatim>\<open>ON UPDATE CURRENT_TIMESTAMP\<close>: it moves when the statement
  changes a column of the row.
\<close>

definition set_columns ::
  "string \<Rightarrow> string \<Rightarrow> string \<Rightarrow> string option \<Rightarrow> string option \<Rightarrow> nat \<Rightarrow> product
     \<Rightarrow> product" where
  "set_columns n d p ic im now r =
     (let r' = r\<lparr>name := n, description := d, price := p, icon := ic, image := im\<rparr>
      in if r' = r then r else r'\<lparr>updated_at := now\<rparr>)"

definition update_product ::
  "field \<Rightarrow> field \<Rightarrow> field \<Rightarrow> string option \<Rightarrow> string option \<Rightarrow> nat \<Rightarrow> nat \<Rightarrow> world
     \<Rightarrow> world option" where
  "update_product n d p ic im i now w =
     (if select_by_id i w = [] then Some w
      else case (n, d, p) of
        (Some n', Some d', Some p') \<Rightarrow>
          Some (w\<lparr>products_tbl :=
                  map (\<lambda>r. if row_id r = i then set_columns n' d' p' ic im now r else r)
                    (products_tbl w)\<rparr>)
      | _ \<Rightarrow> None)"

text \<open>\<^verbatim>\<open>DELETE FROM products WHERE id = ?\<close>\<close>

definition delete_product :: "nat \<Rightarrow> world \<Rightarrow> world" where
  "delete_product i w = w\<lparr>products_tbl := filter (\<lambda>r. row_id r \<noteq> i) (products_tbl w)\<rparr>"

text \<open>
  \<^verbatim>\<open>SELECT * FROM products ORDER BY created_at DESC\<close>. The statement fixes the order of rows
  with different \<^verbatim>\<open>created_at\<close> only; \<open>created_at_desc\<close> is what it promises of a result.
  \<open>order_by_created_at_desc\<close> is the result the model computes: rows with the same
  \<^verbatim>\<open>created_at\<close> stay in primary-key order.
\<close>

definition created_at_desc :: "product list \<Rightarrow> product list \<Rightarrow> bool" where
  "created_at_desc rows result =
     (mset result = mset rows \<and> sorted_wrt (\<lambda>a b. created_at b \<le> created_at a) result)"

definition order_by_created_at_desc :: "product list \<Rightarrow> product list" where
  "order_by_created_at_desc rows = sort_key (\<lambda>r. - int (created_at r)) rows"





text \<open>The state after \<^verbatim>\<open>initDatabase\<close> on an empty database and an empty uploads directory.\<close>

definition initDatabase :: world where
  "initDatabase =
     \<lparr>products_tbl = [], auto_increment = 1,
      admin_tbl = [\<lparr>admin_id = 1, username = ''admin'', password = ''admin123''\<rparr>],
      disk = Map.empty\<rparr>"

text \<open>\<^verbatim>\<open>AUTO_INCREMENT\<close> never hands out an id that a row already has.\<close>

definition ids_below_counter :: "world \<Rightarrow> bool" where
  "ids_below_counter w = (\<forall>r \<in> set (products_tbl w). row_id r < auto_increment w)"

text \<open>\<^verbatim>\<open>id\<close> is the \<^verbatim>\<open>PRIMARY KEY\<close>: no two rows share it.\<close>

definition primary_key :: "world \<Rightarrow> bool" where
  "primary_key w = distinct (map row_id (products_tbl w))"

definition tables_ok :: "world \<Rightarrow> bool" where
  "tables_ok w = (ids_below_counter w \<and> primary_key w)"

section \<open>The upload middleware (multer)\<close>

text \<open>
  A file part of a multipart request as multer hands it to the \<^verbatim>\<open>fileFilter\<close> and
  \<^verbatim>\<open>filename\<close> callbacks (lines 34--61), with the bytes that follow; and what the handler
  later finds in \<^verbatim>\<open>req.file\<close>.
\<close>

record file_part =
  originalname :: string
  mimetype :: string
  content :: bytes

record req_file =
  filename :: string
  size :: nat

text \<open>\<^verbatim>\<open>/jpeg|jpg|png|gif|webp/.test(s)\<close>: the pattern has no anchors, so it looks for one of
  the five words anywhere in \<open>s\<close>.\<close>

definition filetypes_test :: "string \<Rightarrow> bool" where
  "filetypes_test s = list_ex (\<lambda>t. sublist t s) [''jpeg'', ''jpg'', ''png'', ''gif'', ''webp'']"

definition fileFilter :: "file_part \<Rightarrow> bool" where
  "fileFilter file =
     (let mimetype_ok = filetypes_test (mimetype file);
          extname_ok = filetypes_test (toLowerCase (extname (originalname file)))
      in mimetype_ok \<and> extname_ok)"

definition fileSize :: nat where
  "fileSize = 5 * 1024 * 1024"

text \<open>The \<^verbatim>\<open>filename\<close> callback; \<open>random_1e9\<close> is the value of
  \<^verbatim>\<open>Math.round(Math.random() * 1E9)\<close>, an integer from \<open>0\<close> to \<open>10^9\<close>.\<close>

definition storage_filename :: "nat \<Rightarrow> nat \<Rightarrow> file_part \<Rightarrow> string" where
  "storage_filename date_now random_1e9 file =
     (let uniqueSuffix = number_to_string date_now @ ''-'' @ number_to_string random_1e9
      in uniqueSuffix @ extname (originalname file))"

datatype upload_error = Seules_les_images | LIMIT_FILE_SIZE | Write_error

text \<open>
  \<^verbatim>\<open>upload.single('image')\<close>: without a file part the request passes on with no
  \<^verbatim>\<open>req.file\<close>. A part is first put to the \<^verbatim>\<open>fileFilter\<close>, then written below
  \<^verbatim>\<open>uploads/\<close> under the generated name, replacing a file of that name; a part longer than
  \<^verbatim>\<open>limits.fileSize\<close> is refused and leaves nothing behind.
\<close>

definition upload_single ::
  "fault \<Rightarrow> nat \<Rightarrow> nat \<Rightarrow> file_part option \<Rightarrow> world
     \<Rightarrow> upload_error + (req_file option \<times> world)" where
  "upload_single flt date_now random_1e9 part w =
     (case part of
        None \<Rightarrow> Inr (None, w)
      | Some file \<Rightarrow>
          if \<not> fileFilter file then Inl Seules_les_images
          else if fileSize < length (content file) then Inl LIMIT_FILE_SIZE
          else if flt = WriteFails then Inl Write_error
          else
            let fn = storage_filename date_now random_1e9 file
            in Inr (Some \<lparr>filename = fn, size = length (content file)\<rparr>,
                    w\<lparr>disk := (disk w)(''/uploads/'' @ fn \<mapsto> content file)\<rparr>))"

section \<open>The routes\<close>

datatype message =
    Erreur_serveur | Produit_non_trouve | Tous_les_champs_requis
  | Produit_ajoute | Erreur_ajout | Produit_modifie | Erreur_modification
  | Produit_supprime | Erreur_suppression | Identifiants_incorrects | Connexion_reussie

datatype payload = NoPayload | OneProduct "product option" | ManyProducts "product list"

text \<open>
  A response is the JSON envelope \<^verbatim>\<open>{success, message, product | products}\<close> with its status
  (\<^verbatim>\<open>res.json\<close> alone sends 200), a stored file, or the page of Express's own error
  handler, which answers an error that a middleware passed on.
\<close>

datatype response =
    Json nat bool "message option" payload
  | StaticFile bytes
  | ErrorPage nat

record body =
  name_field :: field
  description_field :: field
  price_field :: field
  icon_field :: field

text \<open>\<^verbatim>\<open>rows[0]\<close>, which is \<^verbatim>\<open>undefined\<close> on an empty result.\<close>

definition first_row :: "product list \<Rightarrow> product option" where
  "first_row rows = (case rows of [] \<Rightarrow> None | r # _ \<Rightarrow> Some r)"

text \<open>\<^verbatim>\<open>path.join(__dirname, image)\<close> names the file below the server's directory.\<close>

definition path_join_dirname :: "string \<Rightarrow> string" where
  "path_join_dirname p = p"

text \<open>
  The block that removes an image file, the same in the PUT and DELETE handlers
  (lines 175--180 and 211--216): nothing happens for a \<^verbatim>\<open>NULL\<close> or empty \<^verbatim>\<open>image\<close> or a file
  that is not there; \<open>None\<close> is \<^verbatim>\<open>fs.unlinkSync\<close> throwing.
\<close>

definition unlink_image :: "fault \<Rightarrow> string option \<Rightarrow> world \<Rightarrow> world option" where
  "unlink_image flt img w =
     (case img of
        None \<Rightarrow> Some w
      | Some p \<Rightarrow>
          if p = [] then Some w
          else if disk w (path_join_dirname p) \<noteq> None
            then (if flt = UnlinkFails then None
                  else Some (w\<lparr>disk := (disk w)(path_join_dirname p := None)\<rparr>))
          else Some w)"

text \<open>The path recorded for an upload: \<^verbatim>\<open>/uploads/\<close> followed by \<^verbatim>\<open>req.file.filename\<close>, or
  \<^verbatim>\<open>null\<close> without \<^verbatim>\<open>req.file\<close> (line 142).\<close>

definition uploads_path :: "req_file option \<Rightarrow> string option" where
  "uploads_path file = (case file of Some f \<Rightarrow> Some (''/uploads/'' @ filename f) | None \<Rightarrow> None)"

text \<open>GET /api/products (lines 109--117)\<close>

definition get_products :: "fault \<Rightarrow> world \<Rightarrow> response" where
  "get_products flt w =
     (if query_throws flt 1 then Json 500 False (Some Erreur_serveur) NoPayload
      else Json 200 True None (ManyProducts (order_by_created_at_desc (products_tbl w))))"

text \<open>GET /api/products/:id (lines 120--131)\<close>

definition get_product :: "fault \<Rightarrow> nat \<Rightarrow> world \<Rightarrow> response" where
  "get_product flt i w =
     (if query_throws flt 1 then Json 500 False (Some Erreur_serveur) NoPayload
      else case select_by_id i w of
        [] \<Rightarrow> Json 404 False (Some Produit_non_trouve) NoPayload
      | r # _ \<Rightarrow> Json 200 True None (OneProduct (Some r)))"

text \<open>POST /api/products, the handler behind the upload middleware (lines 134--156); \<open>now\<close>
  is the database server's clock at the \<^verbatim>\<open>INSERT\<close>.\<close>

definition post_products_handler ::
  "fault \<Rightarrow> nat \<Rightarrow> body \<Rightarrow> req_file option \<Rightarrow> world \<Rightarrow> response \<times> world" where
  "post_products_handler flt now b file w =
     (if \<not> truthy (name_field b) \<or> \<not> truthy (description_field b) \<or> \<not> truthy (price_field b)
      then (Json 400 False (Some Tous_les_champs_requis) NoPayload, w)
      else
        let imagePath = uploads_path file
        in if query_throws flt 1 then (Json 500 False (Some Erreur_ajout) NoPayload, w)
           else case insert_product (name_field b) (description_field b) (price_field b)
                       (or_null (icon_field b)) imagePath now w of
             None \<Rightarrow> (Json 500 False (Some Erreur_ajout) NoPayload, w)
           | Some (insertId, w1) \<Rightarrow>
               if query_throws flt 2 then (Json 500 False (Some Erreur_ajout) NoPayload, w1)
               else (Json 200 True (Some Produit_ajoute)
                       (OneProduct (first_row (select_by_id insertId w1))), w1))"

text \<open>PUT /api/products/:id, the handler behind the upload middleware (lines 159--196)\<close>

definition put_products_handler ::
  "fault \<Rightarrow> nat \<Rightarrow> nat \<Rightarrow> body \<Rightarrow> req_file option \<Rightarrow> world \<Rightarrow> response \<times> world" where
  "put_products_handler flt now productId b file w =
     (if query_throws flt 1 then (Json 500 False (Some Erreur_modification) NoPayload, w)
      else case select_by_id productId w of
        [] \<Rightarrow> (Json 404 False (Some Produit_non_trouve) NoPayload, w)
      | existing0 # _ \<Rightarrow>
          (case (case file of
                   None \<Rightarrow> Some (image existing0, w)
                 | Some f \<Rightarrow>
                     (case unlink_image flt (image existing0) w of
                        None \<Rightarrow> None
                      | Some w1 \<Rightarrow> Some (Some (''/uploads/'' @ filename f), w1))) of
             None \<Rightarrow> (Json 500 False (Some Erreur_modification) NoPayload, w)
           | Some (imagePath, w1) \<Rightarrow>
               if query_throws flt 2
               then (Json 500 False (Some Erreur_modification) NoPayload, w1)
               else case update_product (name_field b) (description_field b) (price_field b)
                           (or_null (icon_field b)) imagePath productId now w1 of
                 None \<Rightarrow> (Json 500 False (Some Erreur_modification) NoPayload, w1)
               | Some w2 \<Rightarrow>
                   if query_throws flt 3
                   then (Json 500 False (Some Erreur_modification) NoPayload, w2)
                   else (Json 200 True (Some Produit_modifie)
                           (OneProduct (first_row (select_by_id productId w2))), w2)))"

text \<open>DELETE /api/products/:id (lines 199--225)\<close>

definition delete_products :: "fault \<Rightarrow> nat \<Rightarrow> world \<Rightarrow> response \<times> world" where
  "delete_products flt productId w =
     (if query_throws flt 1 then (Json 500 False (Some Erreur_suppression) NoPayload, w)
      else case select_by_id productId w of
        [] \<Rightarrow> (Json 404 False (Some Produit_non_trouve) NoPayload, w)
      | product0 # _ \<Rightarrow>
          (case unlink_image flt (image product0) w of
             None \<Rightarrow> (Json 500 False (Some Erreur_suppression) NoPayload, w)
           | Some w1 \<Rightarrow>
               if query_throws flt 2
               then (Json 500 False (Some Erreur_suppression) NoPayload, w1)
               else (Json 200 True (Some Produit_supprime) NoPayload,
                     delete_product productId w1)))"


text \<open>The two routes with a file part: the middleware runs first, and an error it passes on
  is answered by Express with status 500 before the handler is reached.\<close>

definition post_products ::
  "fault \<Rightarrow> nat \<Rightarrow> nat \<Rightarrow> nat \<Rightarrow> body \<Rightarrow> file_part option \<Rightarrow> world \<Rightarrow> response \<times> world" where
  "post_products flt date_now random_1e9 now b part w =
     (case upload_single flt date_now random_1e9 part w of
        Inl err \<Rightarrow> (ErrorPage 500, w)
      | Inr (file, w1) \<Rightarrow> post_products_handler flt now b file w1)"

definition put_products ::
  "fault \<Rightarrow> nat \<Rightarrow> nat \<Rightarrow> nat \<Rightarrow> nat \<Rightarrow> body \<Rightarrow> file_part option \<Rightarrow> world
     \<Rightarrow> response \<times> world" where
  "put_products flt date_now random_1e9 now productId b part w =
     (case upload_single flt date_now random_1e9 part w of
        Inl err \<Rightarrow> (ErrorPage 500, w)
      | Inr (file, w1) \<Rightarrow> put_products_handler flt now productId b file w1)"

text \<open>GET /uploads/* (line 18): the stored bytes, or 404 when no such file is there.\<close>

definition get_uploads :: "string \<Rightarrow> world \<Rightarrow> response" where
  "get_uploads url w = (case disk w url of Some bs \<Rightarrow> StaticFile bs | None \<Rightarrow> ErrorPage 404)"

section \<open>The allow-list as the specification words it\<close>

text \<open>
  The specification gives the media store an allow-list of five image types and speaks of
  extensions inside and outside it. Read by its words, an extension is inside the list
  when, lower-cased, it is a dot followed by one of the five; this definition is compared
  with the \<^verbatim>\<open>fileFilter\<close> of the source below.
\<close>

definition allow_list :: "string list" where
  "allow_list = [''jpeg'', ''jpg'', ''png'', ''gif'', ''webp'']"

definition extension_in_allow_list :: "string \<Rightarrow> bool" where
  "extension_in_allow_list nm =
     list_ex (\<lambda>a. toLowerCase (extname nm) = CHR ''.'' # a) allow_list"

definition type_in_allow_list :: "string \<Rightarrow> bool" where
  "type_in_allow_list t = list_ex (\<lambda>a. t = ''image/'' @ a) allow_list"

section \<open>Decimal rendering and generated file names\<close>

lemma number_to_string_small: "n < 10 \<Longrightarrow> number_to_string n = [digit n]"
  by (simp add: number_to_string.simps)

lemma number_to_string_large:
  "10 \<le> n \<Longrightarrow> number_to_string n = number_to_string (n div 10) @ [digit (n mod 10)]"
  by (subst number_to_string.simps) simp

lemma digit_cases:
  "d < 10 \<Longrightarrow> d = 0 \<or> d = 1 \<or> d = 2 \<or> d = 3 \<or> d = 4 \<or> d = 5 \<or> d = 6 \<or> d = 7 \<or> d = 8 \<or> d = (9::nat)"
  by arith

lemma is_digit_digit: "d < 10 \<Longrightarrow> is_digit (digit d)"
  using digit_cases [of d] by (auto simp: is_digit_def digit_def)

lemma digit_value_digit: "d < 10 \<Longrightarrow> digit_value (digit d) = d"
  using digit_cases [of d] by (auto simp: digit_value_def digit_def)

lemma number_to_string_digits: "\<forall>c \<in> set (number_to_string n). is_digit c"
proof (induction n rule: number_to_string.induct)
  case (1 n)
  show ?case
  proof (cases "n < 10")
    case True
    then show ?thesis by (simp add: number_to_string_small is_digit_digit)
  next
    case False
    with 1 show ?thesis by (simp add: number_to_string_large is_digit_digit)
  qed
qed

lemma parse_digits_snoc: "parse_digits (s @ [c]) = 10 * parse_digits s + digit_value c"
  by (simp add: parse_digits_def)

lemma parse_number_to_string: "parse_digits (number_to_string n) = n"
proof (induction n rule: number_to_string.induct)
  case (1 n)
  show ?case
  proof (cases "n < 10")
    case True
    then show ?thesis by (simp add: number_to_string_small parse_digits_def digit_value_digit)
  next
    case False
    with 1 have "parse_digits (number_to_string (n div 10)) = n div 10" by simp
    with False show ?thesis
      by (simp add: number_to_string_large parse_digits_snoc digit_value_digit)
  qed
qed

lemma number_to_string_inj: "number_to_string a = number_to_string b \<Longrightarrow> a = b"
  by (metis parse_number_to_string)

lemma extname_shape: "extname p = [] \<or> hd (extname p) = CHR ''.''"
  by (simp add: extname_def Let_def)

lemma not_digit_dot: "\<not> is_digit CHR ''.''"
  by (simp add: is_digit_def)

lemma not_digit_dash: "\<not> is_digit CHR ''-''"
  by (simp add: is_digit_def)

lemma digits_prefix_unique:
  assumes "\<forall>c \<in> set xs. is_digit c" "\<forall>c \<in> set ys. is_digit c"
    and "r = [] \<or> \<not> is_digit (hd r)" "s = [] \<or> \<not> is_digit (hd s)"
    and "xs @ r = ys @ s"
  shows "xs = ys \<and> r = s"
proof -
  have a: "takeWhile is_digit (xs @ r) = xs" using assms(1,3)
    by (cases r) (simp_all add: takeWhile_append2)
  have b: "takeWhile is_digit (ys @ s) = ys" using assms(2,4)
    by (cases s) (simp_all add: takeWhile_append2)
  from a b assms(5) have "xs = ys" by simp
  with assms(5) show ?thesis by simp
qed

lemma storage_filename_inj:
  assumes "storage_filename t k f = storage_filename t' k' f'"
  shows "t = t' \<and> k = k' \<and> extname (originalname f) = extname (originalname f')"
proof -
  let ?e = "extname (originalname f)" and ?e' = "extname (originalname f')"
  from assms have eq: "number_to_string t @ (CHR ''-'' # number_to_string k @ ?e)
      = number_to_string t' @ (CHR ''-'' # number_to_string k' @ ?e')"
    by (simp add: storage_filename_def)
  have 1: "number_to_string t = number_to_string t'
      \<and> CHR ''-'' # number_to_string k @ ?e = CHR ''-'' # number_to_string k' @ ?e'"
    by (rule digits_prefix_unique [OF number_to_string_digits number_to_string_digits _ _ eq])
      (simp_all add: not_digit_dash)
  have 2: "number_to_string k = number_to_string k' \<and> ?e = ?e'"
    by (rule digits_prefix_unique [OF number_to_string_digits number_to_string_digits])
      (use 1 extname_shape [of "originalname f"] extname_shape [of "originalname f'"]
        in \<open>auto simp: not_digit_dot\<close>)
  from 1 2 show ?thesis by (simp add: number_to_string_inj)
qed

subsection \<open>The extension of a generated name\<close>

lemma last_portion_no_slash: "CHR ''/'' \<notin> set s \<Longrightarrow> last_portion s = s"
proof -
  assume a: "CHR ''/'' \<notin> set s"
  have "rev s \<noteq> [] \<longrightarrow> hd (rev s) \<in> set s"
    using hd_in_set [of "rev s"] by simp
  with a have "rev s = [] \<or> hd (rev s) \<noteq> CHR ''/''" by metis
  then have d: "dropWhile (\<lambda>c. c = CHR ''/'') (rev s) = rev s"
    by (simp only: dropWhile_eq_self_iff)
  from a have tw: "takeWhile (\<lambda>c. c \<noteq> CHR ''/'') (rev s) = rev s"
    by auto
  show ?thesis unfolding last_portion_def d tw by simp
qed

lemma last_portion_has_no_slash: "CHR ''/'' \<notin> set (last_portion p)"
  by (auto simp: last_portion_def dest: set_takeWhileD)

lemma extname_cases:
  "extname p = [] \<or> (\<exists>a. extname p = CHR ''.'' # a \<and> CHR ''.'' \<notin> set a \<and> CHR ''/'' \<notin> set a)"
proof -
  let ?seg = "last_portion p"
  let ?a = "rev (takeWhile (\<lambda>c. c \<noteq> CHR ''.'') (rev ?seg))"
  have 1: "CHR ''.'' \<notin> set ?a" by (auto dest: set_takeWhileD)
  have "set ?a \<subseteq> set ?seg" by (auto dest: set_takeWhileD)
  with last_portion_has_no_slash [of p] have 2: "CHR ''/'' \<notin> set ?a" by blast
  from 1 2 show ?thesis by (simp add: extname_def Let_def)
qed

lemma extname_append:
  assumes pre: "pre \<noteq> []" "CHR ''.'' \<notin> set pre" "CHR ''/'' \<notin> set pre"
    and e: "e = [] \<or> (\<exists>a. e = CHR ''.'' # a \<and> CHR ''.'' \<notin> set a \<and> CHR ''/'' \<notin> set a)"
  shows "extname (pre @ e) = e"
proof (cases e)
  case Nil
  with pre show ?thesis by (simp add: extname_def last_portion_no_slash)
next
  case (Cons x a')
  with e obtain a where ea: "e = CHR ''.'' # a" and a: "CHR ''.'' \<notin> set a" "CHR ''/'' \<notin> set a"
    by auto
  from pre a ea have seg: "last_portion (pre @ e) = pre @ CHR ''.'' # a"
    by (simp add: last_portion_no_slash)
  from a have tw: "takeWhile (\<lambda>c. c \<noteq> CHR ''.'') (rev a @ CHR ''.'' # rev pre) = rev a"
    by (simp add: takeWhile_tail) blast
  from pre obtain y ys where p: "pre = y # ys" "y \<noteq> CHR ''.''" by (cases pre) auto
  then have ne: "pre @ CHR ''.'' # a \<noteq> ''..''" by simp
  from pre have len: "length (pre @ CHR ''.'' # a) \<noteq> Suc (length a)" by simp
  show ?thesis
    unfolding extname_def seg Let_def using tw ne len by (simp add: ea)
qed

lemma is_digit_not_dot_slash: "is_digit c \<Longrightarrow> c \<noteq> CHR ''.'' \<and> c \<noteq> CHR ''/''"
  by (auto simp: is_digit_def)

lemma extname_storage_filename:
  "extname (storage_filename t k f) = extname (originalname f)"
proof -
  let ?pre = "number_to_string t @ ''-'' @ number_to_string k"
  have d: "\<forall>c \<in> set ?pre. is_digit c \<or> c = CHR ''-''"
    using number_to_string_digits [of t] number_to_string_digits [of k] by auto
  have 1: "CHR ''.'' \<notin> set ?pre" "CHR ''/'' \<notin> set ?pre"
    using d is_digit_not_dot_slash by fastforce+
  have 2: "?pre \<noteq> []" by simp
  have "extname (?pre @ extname (originalname f)) = extname (originalname f)"
    by (rule extname_append [OF 2 1 extname_cases])
  then show ?thesis by (simp add: storage_filename_def)
qed

section \<open>Listing and inserting rows\<close>

lemma order_by_created_at_desc_ok: "created_at_desc rows (order_by_created_at_desc rows)"
proof -
  have "sorted (map (\<lambda>r. - int (created_at r)) (order_by_created_at_desc rows))"
    by (simp add: order_by_created_at_desc_def)
  then have "sorted_wrt (\<lambda>a b. created_at b \<le> created_at a) (order_by_created_at_desc rows)"
    by (simp add: sorted_map)
  then show ?thesis
    by (simp add: created_at_desc_def order_by_created_at_desc_def)
qed

lemma strictly_newest_is_first:
  assumes res: "created_at_desc (rows @ [new]) res"
    and newer: "\<forall>r \<in> set rows. created_at r < created_at new"
  shows "hd res = new"
proof (cases res)
  case Nil
  with res show ?thesis by (simp add: created_at_desc_def)
next
  case (Cons x xs)
  from res have "set res = set (rows @ [new])"
    unfolding created_at_desc_def by (blast dest: mset_eq_setD)
  then have sets: "set res = insert new (set rows)" by simp
  from res Cons have le: "\<forall>y \<in> set xs. created_at y \<le> created_at x"
    by (simp add: created_at_desc_def)
  have "x = new"
  proof (rule ccontr)
    assume ne: "x \<noteq> new"
    with sets Cons have "x \<in> set rows" by auto
    with newer have lt: "created_at x < created_at new" by simp
    from sets Cons ne have "new \<in> set xs" by auto
    with le have "created_at new \<le> created_at x" by simp
    with lt show False by simp
  qed
  with Cons show ?thesis by simp
qed

lemma post_products_handler_ok:
  assumes "n \<noteq> []" "d \<noteq> []" "p \<noteq> []"
  shows "post_products_handler NoFault now
           \<lparr>name_field = Some n, description_field = Some d, price_field = Some p, icon_field = ic\<rparr>
           file w
         = (Json 200 True (Some Produit_ajoute)
              (OneProduct (first_row (select_by_id (auto_increment w)
                 (w\<lparr>products_tbl := products_tbl w @
                     [inserted_row (auto_increment w) n d p (or_null ic) (uploads_path file) now],
                   auto_increment := Suc (auto_increment w)\<rparr>)))),
            w\<lparr>products_tbl := products_tbl w @
                     [inserted_row (auto_increment w) n d p (or_null ic) (uploads_path file) now],
                   auto_increment := Suc (auto_increment w)\<rparr>)"
  using assms
  by (simp add: post_products_handler_def insert_product_def truthy_def query_throws_def Let_def)

lemma select_inserted:
  assumes "ids_below_counter w"
  shows "select_by_id (auto_increment w)
           (w\<lparr>products_tbl := products_tbl w @ [inserted_row (auto_increment w) n d p ic im now],
              auto_increment := Suc (auto_increment w)\<rparr>)
         = [inserted_row (auto_increment w) n d p ic im now]"
proof -
  have "filter (\<lambda>r. row_id r = auto_increment w) (products_tbl w) = []"
    using assms by (auto simp: ids_below_counter_def filter_empty_conv)
  then show ?thesis by (simp add: select_by_id_def inserted_row_def)
qed

section \<open>Uploading, removing files and updating rows\<close>

lemma upload_single_accepted:
  assumes "fileFilter file" "length (content file) \<le> fileSize"
  shows "upload_single NoFault dn rnd (Some file) w
         = Inr (Some \<lparr>filename = storage_filename dn rnd file, size = length (content file)\<rparr>,
                w\<lparr>disk := (disk w)(''/uploads/'' @ storage_filename dn rnd file \<mapsto> content file)\<rparr>)"
  using assms by (simp add: upload_single_def Let_def)

lemma upload_single_products:
  "upload_single flt dn rnd part w = Inr (file, w1) \<Longrightarrow>
     products_tbl w1 = products_tbl w \<and> auto_increment w1 = auto_increment w
     \<and> admin_tbl w1 = admin_tbl w"
  by (auto simp: upload_single_def Let_def split: option.splits if_splits)

lemma select_by_id_disk [simp]: "select_by_id i (w\<lparr>disk := dk\<rparr>) = select_by_id i w"
  by (simp add: select_by_id_def)

lemma unlink_image_NoFault:
  "unlink_image NoFault img w
     = Some (case img of None \<Rightarrow> w
             | Some p \<Rightarrow> if p = [] \<or> disk w p = None then w else w\<lparr>disk := (disk w)(p := None)\<rparr>)"
  by (simp add: unlink_image_def path_join_dirname_def split: option.splits)

lemma unlink_image_gone:
  "unlink_image NoFault (Some p) w = Some w1 \<Longrightarrow> p \<noteq> [] \<Longrightarrow> disk w1 p = None"
  by (auto simp: unlink_image_def path_join_dirname_def split: if_splits)

lemma unlink_image_products:
  "unlink_image flt img w = Some w1 \<Longrightarrow>
     products_tbl w1 = products_tbl w \<and> auto_increment w1 = auto_increment w
     \<and> admin_tbl w1 = admin_tbl w"
  by (auto simp: unlink_image_def split: option.splits if_splits)

lemma select_by_id_update:
  "select_by_id i w = [r] \<Longrightarrow>
     update_product (Some n) (Some d) (Some p) ic im i now w = Some w2 \<Longrightarrow>
     select_by_id i w2 = [set_columns n d p ic im now r] \<and> disk w2 = disk w"
proof -
  assume sel: "select_by_id i w = [r]" and upd: "update_product (Some n) (Some d) (Some p) ic im i now w = Some w2"
  let ?f = "\<lambda>r. if row_id r = i then set_columns n d p ic im now r else r"
  have rid: "\<And>x. row_id (?f x) = row_id x"
    by (simp add: set_columns_def Let_def)
  from sel upd have w2: "w2 = w\<lparr>products_tbl := map ?f (products_tbl w)\<rparr>"
    by (simp add: update_product_def)
  have "filter (\<lambda>x. row_id x = i) (map ?f (products_tbl w))
      = map ?f (filter (\<lambda>x. row_id x = i) (products_tbl w))"
    by (simp add: filter_map o_def rid)
  also from sel have "\<dots> = map ?f [r]" by (simp add: select_by_id_def)
  finally have "select_by_id i w2 = [?f r]" by (simp add: w2 select_by_id_def)
  moreover from sel have "r \<in> set (filter (\<lambda>x. row_id x = i) (products_tbl w))"
    by (simp add: select_by_id_def)
  then have "row_id r = i" by simp
  ultimately show ?thesis by (simp add: w2)
qed

lemma set_columns_fields:
  "name (set_columns n d p ic im now r) = n \<and> description (set_columns n d p ic im now r) = d
   \<and> price (set_columns n d p ic im now r) = p \<and> icon (set_columns n d p ic im now r) = ic
   \<and> image (set_columns n d p ic im now r) = im \<and> row_id (set_columns n d p ic im now r) = row_id r
   \<and> created_at (set_columns n d p ic im now r) = created_at r"
proof (cases "r\<lparr>name := n, description := d, price := p, icon := ic, image := im\<rparr> = r")
  case True
  have "name (r\<lparr>name := n, description := d, price := p, icon := ic, image := im\<rparr>) = n"
    "description (r\<lparr>name := n, description := d, price := p, icon := ic, image := im\<rparr>) = d"
    "price (r\<lparr>name := n, description := d, price := p, icon := ic, image := im\<rparr>) = p"
    "icon (r\<lparr>name := n, description := d, price := p, icon := ic, image := im\<rparr>) = ic"
    "image (r\<lparr>name := n, description := d, price := p, icon := ic, image := im\<rparr>) = im"
    by simp_all
  then have "name r = n" "description r = d" "price r = p" "icon r = ic" "image r = im"
    unfolding True by simp_all
  with True show ?thesis by (simp add: set_columns_def Let_def)
next
  case False
  then show ?thesis by (simp add: set_columns_def Let_def)
qed

lemma update_product_Some:
  assumes "select_by_id i w = [r]" "update_product nf df pf ic im i now w = Some w2"
  shows "\<exists>n d p. nf = Some n \<and> df = Some d \<and> pf = Some p"
  using assms by (auto simp: update_product_def split: option.splits)

lemma update_product_image:
  assumes sel: "select_by_id i w = [r]" and upd: "update_product nf df pf ic im i now w = Some w2"
  shows "map image (select_by_id i w2) = [im] \<and> disk w2 = disk w"
proof -
  from update_product_Some [OF sel upd] obtain n d p
    where "nf = Some n" "df = Some d" "pf = Some p" by blast
  with select_by_id_update [OF sel, of n d p ic im now w2] upd
  show ?thesis by (simp add: set_columns_fields)
qed

lemma put_products_handler_ok:
  assumes sel: "select_by_id i w = [r]"
    and w1: "(im, w1) = (case file of None \<Rightarrow> (image r, w)
        | Some f \<Rightarrow> (Some (''/uploads/'' @ filename f),
            case image r of None \<Rightarrow> w
             | Some q \<Rightarrow> if q = [] \<or> disk w q = None then w else w\<lparr>disk := (disk w)(q := None)\<rparr>))"
  shows "\<exists>w2. put_products_handler NoFault now i
           \<lparr>name_field = Some n, description_field = Some d, price_field = Some p, icon_field = ic\<rparr>
           file w
         = (Json 200 True (Some Produit_modifie)
              (OneProduct (Some (set_columns n d p (or_null ic) im now r))), w2)
       \<and> select_by_id i w2 = [set_columns n d p (or_null ic) im now r]
       \<and> disk w2 = disk w1"
proof -
  from sel w1 have sel1: "select_by_id i w1 = [r]"
    by (auto split: option.splits if_splits)
  then obtain w2 where upd:
    "update_product (Some n) (Some d) (Some p) (or_null ic) im i now w1 = Some w2"
    by (simp add: update_product_def)
  from select_by_id_update [OF sel1 upd]
  have sel2: "select_by_id i w2 = [set_columns n d p (or_null ic) im now r]"
    and dk: "disk w2 = disk w1" by simp_all
  from w1 have step: "(case file of None \<Rightarrow> Some (image r, w)
      | Some f \<Rightarrow> (case unlink_image NoFault (image r) w of None \<Rightarrow> None
           | Some w1 \<Rightarrow> Some (Some (''/uploads/'' @ filename f), w1))) = Some (im, w1)"
    by (auto simp: unlink_image_NoFault split: option.splits)
  have "put_products_handler NoFault now i
           \<lparr>name_field = Some n, description_field = Some d, price_field = Some p, icon_field = ic\<rparr>
           file w
         = (Json 200 True (Some Produit_modifie)
              (OneProduct (Some (set_columns n d p (or_null ic) im now r))), w2)"
    unfolding put_products_handler_def
    by (simp add: sel step upd sel2 query_throws_def first_row_def)
  with sel2 dk show ?thesis by blast
qed

lemma or_null_cases: "or_null ic = (if ic = Some [] then None else ic)"
  by (cases ic) (simp_all add: or_null_def truthy_def)

lemma unlink_image_Some:
  "unlink_image flt img w = Some w1 \<Longrightarrow>
     w1 = (case img of None \<Rightarrow> w
           | Some p \<Rightarrow> if p = [] \<or> disk w p = None then w else w\<lparr>disk := (disk w)(p := None)\<rparr>)"
  by (auto simp: unlink_image_def path_join_dirname_def split: option.splits if_splits)

lemma upload_single_Inr:
  "upload_single flt dn rnd (Some file) w = Inr x \<Longrightarrow>
     x = (Some \<lparr>filename = storage_filename dn rnd file, size = length (content file)\<rparr>,
          w\<lparr>disk := (disk w)(''/uploads/'' @ storage_filename dn rnd file \<mapsto> content file)\<rparr>)"
  by (auto simp: upload_single_def Let_def split: if_splits)

lemma put_products_handler_200_image:
  assumes run: "put_products_handler flt now i b (Some f) w = (Json 200 s m pl, w')"
    and sel: "select_by_id i w = [r]"
  shows "map image (select_by_id i w') = [Some (''/uploads/'' @ filename f)]
     \<and> disk w' = disk (case image r of None \<Rightarrow> w
           | Some q \<Rightarrow> if q = [] \<or> disk w q = None then w else w\<lparr>disk := (disk w)(q := None)\<rparr>)"
proof -
  from run sel obtain w1 where un: "unlink_image flt (image r) w = Some w1"
    and upd: "update_product (name_field b) (description_field b) (price_field b)
                (or_null (icon_field b)) (Some (''/uploads/'' @ filename f)) i now w1 = Some w'"
    by (auto simp: put_products_handler_def split: option.splits if_splits)
  from unlink_image_products [OF un] sel have sel1: "select_by_id i w1 = [r]"
    by (simp add: select_by_id_def)
  from update_product_image [OF sel1 upd] unlink_image_Some [OF un]
  show ?thesis by simp
qed

subsection \<open>Some uploads, evaluated\<close>

lemma rose_png_filter:
  "fileFilter \<lparr>originalname = ''rose.png'', mimetype = ''image/png'', content = [137, 80, 78]\<rparr>"
  by code_simp

lemma rose_png_name:
  "storage_filename 1730000000123 42
     \<lparr>originalname = ''rose.png'', mimetype = ''image/png'', content = [137, 80, 78]\<rparr>
   = ''1730000000123-42.png''"
  by (simp add: storage_filename_def number_to_string_small number_to_string_large digit_def
      extname_def last_portion_def)

lemma notes_pngx_filter:
  "fileFilter \<lparr>originalname = ''notes.pngx'', mimetype = ''image/png'', content = [104, 105]\<rparr>"
  by code_simp

lemma notes_pngx_extension:
  "\<not> extension_in_allow_list ''notes.pngx''"
  by code_simp

lemma notes_pngx_name:
  "storage_filename 1730000000123 42
     \<lparr>originalname = ''notes.pngx'', mimetype = ''image/png'', content = [104, 105]\<rparr>
   = ''1730000000123-42.pngx''"
  by (simp add: storage_filename_def number_to_string_small number_to_string_large digit_def
      extname_def last_portion_def)

lemma renamed_txt_filter:
  "\<not> fileFilter \<lparr>originalname = ''notes.png'', mimetype = ''text/plain'', content = [104, 105]\<rparr>"
  by code_simp

lemma lily_png_filter:
  "fileFilter \<lparr>originalname = ''lily.png'', mimetype = ''image/png'', content = [71, 73]\<rparr>"
  by code_simp

lemma lily_png_name:
  "storage_filename 1730000000123 42
     \<lparr>originalname = ''lily.png'', mimetype = ''image/png'', content = [71, 73]\<rparr>
   = ''1730000000123-42.png''"
  by (simp add: storage_filename_def number_to_string_small number_to_string_large digit_def
      extname_def last_portion_def)

lemma rose_png_later_name:
  "storage_filename 1730000000124 42
     \<lparr>originalname = ''rose.png'', mimetype = ''image/png'', content = [137, 80, 78]\<rparr>
   = ''1730000000124-42.png''"
  by (simp add: storage_filename_def number_to_string_small number_to_string_large digit_def
      extname_def last_portion_def)

lemma upload_single_rejected:
  "\<not> fileFilter file \<Longrightarrow> upload_single flt dn rnd (Some file) w = Inl Seules_les_images"
  by (simp add: upload_single_def)

lemma upload_single_too_large:
  "fileFilter file \<Longrightarrow> fileSize < length (content file) \<Longrightarrow>
     upload_single flt dn rnd (Some file) w = Inl LIMIT_FILE_SIZE"
  by (simp add: upload_single_def)

lemma sublist_filetypes_test:
  "a \<in> set [''jpeg'', ''jpg'', ''png'', ''gif'', ''webp''] \<Longrightarrow> sublist a s \<Longrightarrow> filetypes_test s"
  unfolding filetypes_test_def list_ex_iff by blast

lemma allow_list_passes_filter:
  assumes "type_in_allow_list (mimetype file)" "extension_in_allow_list (originalname file)"
  shows "fileFilter file"
proof -
  from assms(1) obtain a where a: "a \<in> set allow_list" "mimetype file = ''image/'' @ a"
    unfolding type_in_allow_list_def list_ex_iff by blast
  then have "sublist a (mimetype file)"
    using sublist_appendI [of a "''image/''" "[]"] by simp
  with a have 1: "filetypes_test (mimetype file)"
    by (auto simp: allow_list_def intro: sublist_filetypes_test)
  from assms(2) obtain b where b: "b \<in> set allow_list"
      "toLowerCase (extname (originalname file)) = CHR ''.'' # b"
    unfolding extension_in_allow_list_def list_ex_iff by blast
  then have "sublist b (toLowerCase (extname (originalname file)))"
    using sublist_appendI [of b "''.''" "[]"] by simp
  with b have 2: "filetypes_test (toLowerCase (extname (originalname file)))"
    by (auto simp: allow_list_def intro: sublist_filetypes_test)
  from 1 2 show ?thesis by (simp add: fileFilter_def)
qed

section \<open>Invariants of the products table\<close>

text \<open>
  After \<^verbatim>\<open>initDatabase\<close> and after every request, whatever fails, the ids in the table are
  distinct and below the auto-increment counter; so the rows with a given id are at most
  one, and the theorems below name it \<open>r\<close> in \<open>select_by_id i w = [r]\<close>.
\<close>

lemma tables_ok_initDatabase: "tables_ok initDatabase"
  by (simp add: tables_ok_def ids_below_counter_def primary_key_def initDatabase_def)

lemma filter_distinct_key:
  "distinct (map f xs) \<Longrightarrow> r \<in> set xs \<Longrightarrow> filter (\<lambda>x. f x = f r) xs = [r]"
proof (induction xs)
  case Nil
  then show ?case by simp
next
  case (Cons a xs)
  show ?case
  proof (cases "a = r")
    case True
    with Cons.prems have "\<forall>x \<in> set xs. f x \<noteq> f r" by (auto simp: image_iff)
    then have "filter (\<lambda>x. f x = f r) xs = []" by (simp add: filter_empty_conv)
    with True show ?thesis by simp
  next
    case False
    with Cons.prems have "r \<in> set xs" "f a \<noteq> f r" by (auto simp: image_iff)
    with Cons show ?thesis by simp
  qed
qed

lemma select_by_id_primary_key:
  "primary_key w \<Longrightarrow> r \<in> set (products_tbl w) \<Longrightarrow> select_by_id (row_id r) w = [r]"
  unfolding primary_key_def select_by_id_def by (rule filter_distinct_key)

lemma tables_ok_same_tables:
  "products_tbl w' = products_tbl w \<Longrightarrow> auto_increment w' = auto_increment w \<Longrightarrow>
     tables_ok w' = tables_ok w"
  by (simp add: tables_ok_def ids_below_counter_def primary_key_def)

lemma tables_ok_insert:
  assumes "tables_ok w" "insert_product n d p ic im now w = Some (i, w')"
  shows "tables_ok w'"
proof -
  from assms(2) obtain n' d' p' where
    w': "w' = w\<lparr>products_tbl := products_tbl w @ [inserted_row (auto_increment w) n' d' p' ic im now],
               auto_increment := Suc (auto_increment w)\<rparr>"
    by (auto simp: insert_product_def split: option.splits)
  from assms(1) show ?thesis
    unfolding w' tables_ok_def ids_below_counter_def primary_key_def
    by (auto simp: inserted_row_def less_Suc_eq)
qed

lemma row_id_set_columns: "row_id (set_columns n d p ic im now r) = row_id r"
  by (simp add: set_columns_fields)

lemma row_id_updated:
  "row_id (if row_id r = i then set_columns n d p ic im now r else r) = row_id r"
  by (simp add: row_id_set_columns)

lemma map_row_id_updated:
  "map row_id (map (\<lambda>r. if row_id r = i then set_columns n d p ic im now r else r) xs)
     = map row_id xs"
  by (induction xs) (simp_all add: row_id_set_columns)

lemma tables_ok_update:
  assumes "tables_ok w" "update_product n d p ic im i now w = Some w'"
  shows "tables_ok w'"
proof -
  from assms(2) have "w' = w \<or> (\<exists>n' d' p'. w' = w\<lparr>products_tbl :=
      map (\<lambda>r. if row_id r = i then set_columns n' d' p' ic im now r else r) (products_tbl w)\<rparr>)"
    by (auto simp: update_product_def split: option.splits if_splits)
  then show ?thesis
  proof
    assume "w' = w"
    with assms(1) show ?thesis by simp
  next
    assume "\<exists>n' d' p'. w' = w\<lparr>products_tbl :=
      map (\<lambda>r. if row_id r = i then set_columns n' d' p' ic im now r else r) (products_tbl w)\<rparr>"
    then obtain n' d' p' where w': "w' = w\<lparr>products_tbl :=
      map (\<lambda>r. if row_id r = i then set_columns n' d' p' ic im now r else r) (products_tbl w)\<rparr>"
      by blast
    let ?g = "\<lambda>r. if row_id r = i then set_columns n' d' p' ic im now r else r"
    from assms(1) have pk: "distinct (map row_id (map ?g (products_tbl w)))"
      unfolding map_row_id_updated by (simp add: tables_ok_def primary_key_def)
    have "\<forall>r \<in> set (map ?g (products_tbl w)). row_id r < auto_increment w"
    proof
      fix r assume "r \<in> set (map ?g (products_tbl w))"
      then obtain x where x: "x \<in> set (products_tbl w)" "r = ?g x" by auto
      from x(2) have "row_id r = row_id x" by (simp only: row_id_updated)
      with x(1) assms(1) show "row_id r < auto_increment w"
        by (simp add: tables_ok_def ids_below_counter_def)
    qed
    with pk show ?thesis
      unfolding w' by (simp add: tables_ok_def ids_below_counter_def primary_key_def)
  qed
qed

lemma tables_ok_delete: "tables_ok w \<Longrightarrow> tables_ok (delete_product i w)"
  by (simp add: tables_ok_def ids_below_counter_def primary_key_def delete_product_def
      distinct_map_filter)

lemma tables_ok_unlink: "unlink_image flt img w = Some w' \<Longrightarrow> tables_ok w' = tables_ok w"
  using unlink_image_products [of flt img w w'] tables_ok_same_tables [of w' w] by blast

lemma tables_ok_upload:
  "upload_single flt dn rnd part w = Inr (file, w') \<Longrightarrow> tables_ok w' = tables_ok w"
  using upload_single_products [of flt dn rnd part w "file" w'] tables_ok_same_tables [of w' w]
  by blast

lemma tables_ok_post_handler:
  assumes "tables_ok w"
  shows "tables_ok (snd (post_products_handler flt now b file w))"
proof (cases "insert_product (name_field b) (description_field b) (price_field b)
                       (or_null (icon_field b)) (uploads_path file) now w")
  case None
  with assms show ?thesis by (simp add: post_products_handler_def Let_def)
next
  case (Some a)
  obtain i w1 where a: "a = (i, w1)" by (cases a)
  from tables_ok_insert [OF assms Some [unfolded a]] have "tables_ok w1" .
  with assms Some a show ?thesis by (simp add: post_products_handler_def Let_def)
qed

lemma tables_ok_delete_handler:
  assumes "tables_ok w"
  shows "tables_ok (snd (delete_products flt i w))"
proof (cases "select_by_id i w")
  case Nil
  with assms show ?thesis by (simp add: delete_products_def)
next
  case (Cons r rs)
  show ?thesis
  proof (cases "unlink_image flt (image r) w")
    case None
    with assms Cons show ?thesis by (simp add: delete_products_def)
  next
    case (Some w1)
    from tables_ok_unlink [OF Some] assms have "tables_ok w1" by simp
    then have "tables_ok (delete_product i w1)" by (rule tables_ok_delete)
    with assms Cons Some \<open>tables_ok w1\<close> show ?thesis by (simp add: delete_products_def)
  qed
qed

lemma tables_ok_put_handler:
  assumes ok: "tables_ok w"
  shows "tables_ok (snd (put_products_handler flt now i b file w))"
proof (cases "select_by_id i w")
  case Nil
  with ok show ?thesis by (simp add: put_products_handler_def)
next
  case (Cons r rs)
  define step where "step = (case file of
                   None \<Rightarrow> Some (image r, w)
                 | Some f \<Rightarrow>
                     (case unlink_image flt (image r) w of
                        None \<Rightarrow> None
                      | Some w1 \<Rightarrow> Some (Some (''/uploads/'' @ filename f), w1)))"
  have run: "put_products_handler flt now i b file w =
     (if query_throws flt 1 then (Json 500 False (Some Erreur_modification) NoPayload, w)
      else case step of
             None \<Rightarrow> (Json 500 False (Some Erreur_modification) NoPayload, w)
           | Some (imagePath, w1) \<Rightarrow>
               if query_throws flt 2
               then (Json 500 False (Some Erreur_modification) NoPayload, w1)
               else case update_product (name_field b) (description_field b) (price_field b)
                           (or_null (icon_field b)) imagePath i now w1 of
                 None \<Rightarrow> (Json 500 False (Some Erreur_modification) NoPayload, w1)
               | Some w2 \<Rightarrow>
                   if query_throws flt 3
                   then (Json 500 False (Some Erreur_modification) NoPayload, w2)
                   else (Json 200 True (Some Produit_modifie)
                           (OneProduct (first_row (select_by_id i w2))), w2))"
    unfolding put_products_handler_def step_def Cons by simp
  show ?thesis
  proof (cases step)
    case None
    with ok show ?thesis unfolding run by simp
  next
    case (Some a)
    obtain im w1 where a: "a = (im, w1)" by (cases a)
    have ok1: "tables_ok w1"
    proof (cases "file")
      case None
      with Some a ok show ?thesis by (simp add: step_def)
    next
      case (Some f)
      with \<open>step = Some a\<close> a have "unlink_image flt (image r) w = Some w1"
        by (auto simp: step_def split: option.splits)
      from tables_ok_unlink [OF this] ok show ?thesis by simp
    qed
    show ?thesis
    proof (cases "update_product (name_field b) (description_field b) (price_field b)
                           (or_null (icon_field b)) im i now w1")
      case None
      with ok ok1 Some a show ?thesis unfolding run by simp
    next
      case (Some w2)
      from tables_ok_update [OF ok1 Some] have "tables_ok w2" .
      with ok ok1 Some \<open>step = Some a\<close> a show ?thesis unfolding run by simp
    qed
  qed
qed

lemma tables_ok_post_products:
  assumes "tables_ok w"
  shows "tables_ok (snd (post_products flt dn rnd now b part w))"
proof (cases "upload_single flt dn rnd part w")
  case (Inl e)
  with assms show ?thesis by (simp add: post_products_def)
next
  case (Inr a)
  obtain f w1 where a: "a = (f, w1)" by (cases a)
  from tables_ok_upload [OF Inr [unfolded a]] assms have "tables_ok w1" by simp
  then have "tables_ok (snd (post_products_handler flt now b f w1))"
    by (rule tables_ok_post_handler)
  with Inr a show ?thesis by (simp add: post_products_def)
qed

lemma tables_ok_put_products:
  assumes "tables_ok w"
  shows "tables_ok (snd (put_products flt dn rnd now i b part w))"
proof (cases "upload_single flt dn rnd part w")
  case (Inl e)
  with assms show ?thesis by (simp add: put_products_def)
next
  case (Inr a)
  obtain f w1 where a: "a = (f, w1)" by (cases a)
  from tables_ok_upload [OF Inr [unfolded a]] assms have "tables_ok w1" by simp
  then have "tables_ok (snd (put_products_handler flt now i b f w1))"
    by (rule tables_ok_put_handler)
  with Inr a show ?thesis by (simp add: put_products_def)
qed

section \<open>Creating a product\<close>

text \<open>
  C1. Whenever \<^verbatim>\<open>name\<close>, \<^verbatim>\<open>description\<close> or \<^verbatim>\<open>price\<close> is missing or empty, the create handler
  answers 400 and leaves the whole state, hence the products table, as it was, whatever
  else happens to the request. When all three are non-empty the check passes (no 400 under
  any fault of the environment), and when no storage call throws the answer is 200 and the
  table has exactly one more row, with the next auto-increment id. The route answers as
  its handler for every request that the upload middleware passes on (one without a file
  part, or with a file it stores), and the middleware does not touch the table; an upload
  error is answered 500 before the handler runs.
\<close>

theorem create_validation:
  "(\<not> truthy (name_field b) \<or> \<not> truthy (description_field b) \<or> \<not> truthy (price_field b)
      \<longrightarrow> post_products_handler flt now b file w
            = (Json 400 False (Some Tous_les_champs_requis) NoPayload, w))
   \<and> (truthy (name_field b) \<and> truthy (description_field b) \<and> truthy (price_field b)
      \<longrightarrow> (\<forall>f pl w'. post_products_handler f now b file w
              \<noteq> (Json 400 False (Some Tous_les_champs_requis) pl, w'))
        \<and> (\<exists>r pl. post_products_handler NoFault now b file w
              = (Json 200 True (Some Produit_ajoute) pl,
                 w\<lparr>products_tbl := products_tbl w @ [r],
                   auto_increment := Suc (auto_increment w)\<rparr>)
            \<and> row_id r = auto_increment w))
   \<and> (upload_single flt dn rnd part w0 = Inr (file, w)
      \<longrightarrow> post_products flt dn rnd now b part w0 = post_products_handler flt now b file w
        \<and> products_tbl w = products_tbl w0)"
proof (intro conjI)
  show "\<not> truthy (name_field b) \<or> \<not> truthy (description_field b) \<or> \<not> truthy (price_field b)
      \<longrightarrow> post_products_handler flt now b file w
            = (Json 400 False (Some Tous_les_champs_requis) NoPayload, w)"
    by (auto simp: post_products_handler_def)
  show "truthy (name_field b) \<and> truthy (description_field b) \<and> truthy (price_field b)
      \<longrightarrow> (\<forall>f pl w'. post_products_handler f now b file w
              \<noteq> (Json 400 False (Some Tous_les_champs_requis) pl, w'))
        \<and> (\<exists>r pl. post_products_handler NoFault now b file w
              = (Json 200 True (Some Produit_ajoute) pl,
                 w\<lparr>products_tbl := products_tbl w @ [r],
                   auto_increment := Suc (auto_increment w)\<rparr>)
            \<and> row_id r = auto_increment w)"
    by (auto simp: post_products_handler_def insert_product_def truthy_def query_throws_def
        inserted_row_def Let_def split: option.splits)
  show "upload_single flt dn rnd part w0 = Inr (file, w)
      \<longrightarrow> post_products flt dn rnd now b part w0 = post_products_handler flt now b file w
        \<and> products_tbl w = products_tbl w0"
    using upload_single_products [of flt dn rnd part w0 "file" w]
    by (simp add: post_products_def)
qed

theorem create_validation_witness:
  "post_products_handler NoFault 100
      \<lparr>name_field = Some [], description_field = Some ''Green tea'', price_field = Some ''3.50'',
       icon_field = None\<rparr> None initDatabase
     = (Json 400 False (Some Tous_les_champs_requis) NoPayload, initDatabase)
   \<and> (\<exists>r pl. post_products_handler NoFault 100
      \<lparr>name_field = Some ''Tea'', description_field = Some ''Green tea'', price_field = Some ''3.50'',
       icon_field = None\<rparr> None initDatabase
     = (Json 200 True (Some Produit_ajoute) pl,
        initDatabase\<lparr>products_tbl := products_tbl initDatabase @ [r],
           auto_increment := Suc (auto_increment initDatabase)\<rparr>)
       \<and> row_id r = auto_increment initDatabase)"
  using create_validation [of "\<lparr>name_field = Some [], description_field = Some ''Green tea'',
        price_field = Some ''3.50'', icon_field = None\<rparr>" NoFault 100 None initDatabase]
    create_validation [of "\<lparr>name_field = Some ''Tea'', description_field = Some ''Green tea'',
        price_field = Some ''3.50'', icon_field = None\<rparr>" NoFault 100 None initDatabase]
  by (simp add: truthy_def)

section \<open>Listing products\<close>

text \<open>
  C4, as stated, at a concrete input: two products created within the same second of the
  database clock have the same \<^verbatim>\<open>created_at\<close>. The listing then shows the older one first,
  that order satisfies \<^verbatim>\<open>ORDER BY created_at DESC\<close>, and the product just created is not
  the first element.
\<close>

theorem listing_tie_counterexample:
  "post_products_handler NoFault 100
      \<lparr>name_field = Some ''Tea'', description_field = Some ''Green tea'',
       price_field = Some ''3.50'', icon_field = None\<rparr> None initDatabase
     = (Json 200 True (Some Produit_ajoute)
          (OneProduct (Some (inserted_row 1 ''Tea'' ''Green tea'' ''3.50'' None None 100))),
        initDatabase\<lparr>products_tbl := [inserted_row 1 ''Tea'' ''Green tea'' ''3.50'' None None 100],
          auto_increment := 2\<rparr>)
   \<and> post_products_handler NoFault 100
      \<lparr>name_field = Some ''Coffee'', description_field = Some ''Arabica'',
       price_field = Some ''4.20'', icon_field = None\<rparr> None
      (initDatabase\<lparr>products_tbl := [inserted_row 1 ''Tea'' ''Green tea'' ''3.50'' None None 100],
          auto_increment := 2\<rparr>)
     = (Json 200 True (Some Produit_ajoute)
          (OneProduct (Some (inserted_row 2 ''Coffee'' ''Arabica'' ''4.20'' None None 100))),
        initDatabase\<lparr>products_tbl := [inserted_row 1 ''Tea'' ''Green tea'' ''3.50'' None None 100,
             inserted_row 2 ''Coffee'' ''Arabica'' ''4.20'' None None 100],
          auto_increment := 3\<rparr>)
   \<and> get_products NoFault
        (initDatabase\<lparr>products_tbl := [inserted_row 1 ''Tea'' ''Green tea'' ''3.50'' None None 100,
             inserted_row 2 ''Coffee'' ''Arabica'' ''4.20'' None None 100],
          auto_increment := 3\<rparr>)
     = Json 200 True None (ManyProducts
         [inserted_row 1 ''Tea'' ''Green tea'' ''3.50'' None None 100,
          inserted_row 2 ''Coffee'' ''Arabica'' ''4.20'' None None 100])
   \<and> created_at_desc
         [inserted_row 1 ''Tea'' ''Green tea'' ''3.50'' None None 100,
          inserted_row 2 ''Coffee'' ''Arabica'' ''4.20'' None None 100]
         [inserted_row 1 ''Tea'' ''Green tea'' ''3.50'' None None 100,
          inserted_row 2 ''Coffee'' ''Arabica'' ''4.20'' None None 100]
   \<and> hd [inserted_row 1 ''Tea'' ''Green tea'' ''3.50'' None None 100,
          inserted_row 2 ''Coffee'' ''Arabica'' ''4.20'' None None 100]
       \<noteq> inserted_row 2 ''Coffee'' ''Arabica'' ''4.20'' None None 100"
  by (simp add: post_products_handler_ok select_by_id_def first_row_def initDatabase_def
      or_null_def truthy_def uploads_path_def get_products_def query_throws_def
      order_by_created_at_desc_def created_at_desc_def inserted_row_def)

text \<open>
  C4, amended. The listing holds every row of the table, ordered by \<^verbatim>\<open>created_at\<close>
  descending. After a create whose \<^verbatim>\<open>created_at\<close> is strictly later than that of every
  row already there, the new row is the first element of the listing, and of every
  ordering of the table that the \<^verbatim>\<open>ORDER BY\<close> permits. Rows created in the same second may
  come in either order.
\<close>

theorem listing_newest_first:
  "created_at_desc (products_tbl w) (order_by_created_at_desc (products_tbl w))
   \<and> get_products NoFault w
       = Json 200 True None (ManyProducts (order_by_created_at_desc (products_tbl w)))
   \<and> (n \<noteq> [] \<and> d \<noteq> [] \<and> p \<noteq> [] \<and> (\<forall>r \<in> set (products_tbl w). created_at r < now)
      \<longrightarrow> (\<exists>new pl w'.
            post_products_handler NoFault now
              \<lparr>name_field = Some n, description_field = Some d, price_field = Some p,
               icon_field = ic\<rparr> file w
              = (Json 200 True (Some Produit_ajoute) pl, w')
          \<and> products_tbl w' = products_tbl w @ [new]
          \<and> row_id new = auto_increment w \<and> created_at new = now
          \<and> (\<forall>res. created_at_desc (products_tbl w') res \<longrightarrow> hd res = new)
          \<and> (\<exists>rest. get_products NoFault w' = Json 200 True None (ManyProducts (new # rest)))))"
proof (intro conjI impI)
  show "created_at_desc (products_tbl w) (order_by_created_at_desc (products_tbl w))"
    by (rule order_by_created_at_desc_ok)
  show "get_products NoFault w
       = Json 200 True None (ManyProducts (order_by_created_at_desc (products_tbl w)))"
    by (simp add: get_products_def query_throws_def)
next
  assume a: "n \<noteq> [] \<and> d \<noteq> [] \<and> p \<noteq> [] \<and> (\<forall>r \<in> set (products_tbl w). created_at r < now)"
  let ?new = "inserted_row (auto_increment w) n d p (or_null ic) (uploads_path file) now"
  let ?w' = "w\<lparr>products_tbl := products_tbl w @ [?new],
                auto_increment := Suc (auto_increment w)\<rparr>"
  let ?b = "\<lparr>name_field = Some n, description_field = Some d, price_field = Some p,
               icon_field = ic\<rparr>"
  from a have run: "post_products_handler NoFault now ?b file w
      = (Json 200 True (Some Produit_ajoute)
           (OneProduct (first_row (select_by_id (auto_increment w) ?w'))), ?w')"
    by (simp add: post_products_handler_ok)
  have tbl: "products_tbl ?w' = products_tbl w @ [?new]" by simp
  have cr: "created_at ?new = now" "row_id ?new = auto_increment w"
    by (simp_all add: inserted_row_def)
  from a cr have newer: "\<forall>r \<in> set (products_tbl w). created_at r < created_at ?new" by simp
  have first: "\<forall>res. created_at_desc (products_tbl ?w') res \<longrightarrow> hd res = ?new"
    using strictly_newest_is_first [OF _ newer] tbl by simp
  have listed: "created_at_desc (products_tbl ?w') (order_by_created_at_desc (products_tbl ?w'))"
    by (rule order_by_created_at_desc_ok)
  with first have hd: "hd (order_by_created_at_desc (products_tbl ?w')) = ?new" by blast
  from listed have "order_by_created_at_desc (products_tbl ?w') \<noteq> []"
    unfolding created_at_desc_def tbl by auto
  with hd have "\<exists>rest. order_by_created_at_desc (products_tbl ?w') = ?new # rest"
    by (cases "order_by_created_at_desc (products_tbl ?w')") auto
  then have resp: "\<exists>rest. get_products NoFault ?w' = Json 200 True None (ManyProducts (?new # rest))"
    by (simp add: get_products_def query_throws_def)
  from run tbl cr first resp
  show "\<exists>new pl w'.
            post_products_handler NoFault now ?b file w
              = (Json 200 True (Some Produit_ajoute) pl, w')
          \<and> products_tbl w' = products_tbl w @ [new]
          \<and> row_id new = auto_increment w \<and> created_at new = now
          \<and> (\<forall>res. created_at_desc (products_tbl w') res \<longrightarrow> hd res = new)
          \<and> (\<exists>rest. get_products NoFault w' = Json 200 True None (ManyProducts (new # rest)))"
    by blast
qed

theorem listing_newest_first_witness:
  "(\<exists>new pl w'.
          post_products_handler NoFault 101
            \<lparr>name_field = Some ''Coffee'', description_field = Some ''Arabica'',
             price_field = Some ''4.20'', icon_field = None\<rparr> None
            (initDatabase\<lparr>products_tbl := [inserted_row 1 ''Tea'' ''Green tea'' ''3.50'' None None 100],
               auto_increment := 2\<rparr>)
            = (Json 200 True (Some Produit_ajoute) pl, w')
        \<and> products_tbl w' = [inserted_row 1 ''Tea'' ''Green tea'' ''3.50'' None None 100, new]
        \<and> row_id new = 2 \<and> created_at new = 101
        \<and> (\<forall>res. created_at_desc (products_tbl w') res \<longrightarrow> hd res = new)
        \<and> (\<exists>rest. get_products NoFault w' = Json 200 True None (ManyProducts (new # rest))))"
  using listing_newest_first [of
      "initDatabase\<lparr>products_tbl := [inserted_row 1 ''Tea'' ''Green tea'' ''3.50'' None None 100],
          auto_increment := 2\<rparr>" "''Coffee''" "''Arabica''" "''4.20''" 101 None None]
  by (simp add: inserted_row_def)

section \<open>Reading a product back\<close>

text \<open>
  C5, as stated, at a concrete input: a create with the empty string as \<^verbatim>\<open>icon\<close> stores
  \<^verbatim>\<open>NULL\<close> (line 146, \<^verbatim>\<open>icon || null\<close>), so the row read back does not have the icon
  that was supplied.
\<close>

theorem create_icon_counterexample:
  "post_products_handler NoFault 100
      \<lparr>name_field = Some ''Tea'', description_field = Some ''Green tea'',
       price_field = Some ''3.50'', icon_field = Some []\<rparr> None initDatabase
     = (Json 200 True (Some Produit_ajoute)
          (OneProduct (Some (inserted_row 1 ''Tea'' ''Green tea'' ''3.50'' None None 100))),
        initDatabase\<lparr>products_tbl := [inserted_row 1 ''Tea'' ''Green tea'' ''3.50'' None None 100],
          auto_increment := 2\<rparr>)
   \<and> get_product NoFault 1
        (initDatabase\<lparr>products_tbl := [inserted_row 1 ''Tea'' ''Green tea'' ''3.50'' None None 100],
          auto_increment := 2\<rparr>)
     = Json 200 True None
         (OneProduct (Some (inserted_row 1 ''Tea'' ''Green tea'' ''3.50'' None None 100)))
   \<and> icon (inserted_row 1 ''Tea'' ''Green tea'' ''3.50'' None None 100) \<noteq> Some []"
  by (simp add: post_products_handler_ok select_by_id_def first_row_def initDatabase_def
      or_null_def truthy_def uploads_path_def get_product_def query_throws_def inserted_row_def)

text \<open>
  C5, amended. An id that no row has is answered 404. After a create with non-empty
  \<^verbatim>\<open>name\<close>, \<^verbatim>\<open>description\<close> and \<^verbatim>\<open>price\<close> (no storage call throwing, ids of existing rows
  below the auto-increment counter), reading the returned id gives the returned row,
  whose \<^verbatim>\<open>name\<close>, \<^verbatim>\<open>description\<close>, \<^verbatim>\<open>price\<close> and \<^verbatim>\<open>image\<close> are the values supplied and whose
  \<^verbatim>\<open>icon\<close> is the value supplied, except that an empty icon is stored as \<^verbatim>\<open>NULL\<close>.
\<close>

theorem get_by_id_round_trip:
  "((\<forall>r \<in> set (products_tbl w). row_id r \<noteq> i)
      \<longrightarrow> get_product NoFault i w = Json 404 False (Some Produit_non_trouve) NoPayload)
   \<and> (ids_below_counter w \<and> n \<noteq> [] \<and> d \<noteq> [] \<and> p \<noteq> []
      \<longrightarrow> (\<exists>r w'.
            post_products_handler NoFault now
              \<lparr>name_field = Some n, description_field = Some d, price_field = Some p,
               icon_field = ic\<rparr> file w
              = (Json 200 True (Some Produit_ajoute) (OneProduct (Some r)), w')
          \<and> get_product NoFault (row_id r) w' = Json 200 True None (OneProduct (Some r))
          \<and> name r = n \<and> description r = d \<and> price r = p
          \<and> icon r = (if ic = Some [] then None else ic)
          \<and> image r = uploads_path file))"
proof (intro conjI impI)
  assume "\<forall>r \<in> set (products_tbl w). row_id r \<noteq> i"
  then have "select_by_id i w = []"
    by (simp add: select_by_id_def filter_empty_conv)
  then show "get_product NoFault i w = Json 404 False (Some Produit_non_trouve) NoPayload"
    by (simp add: get_product_def query_throws_def)
next
  assume a: "ids_below_counter w \<and> n \<noteq> [] \<and> d \<noteq> [] \<and> p \<noteq> []"
  let ?r = "inserted_row (auto_increment w) n d p (or_null ic) (uploads_path file) now"
  let ?w' = "w\<lparr>products_tbl := products_tbl w @ [?r],
                auto_increment := Suc (auto_increment w)\<rparr>"
  from a have sel: "select_by_id (auto_increment w) ?w' = [?r]"
    by (simp add: select_inserted)
  with a have run: "post_products_handler NoFault now
              \<lparr>name_field = Some n, description_field = Some d, price_field = Some p,
               icon_field = ic\<rparr> file w
      = (Json 200 True (Some Produit_ajoute) (OneProduct (Some ?r)), ?w')"
    by (simp add: post_products_handler_ok first_row_def)
  have rid: "row_id ?r = auto_increment w" by (simp add: inserted_row_def)
  from sel have get: "get_product NoFault (row_id ?r) ?w' = Json 200 True None (OneProduct (Some ?r))"
    unfolding rid by (simp add: get_product_def query_throws_def)
  have fields: "name ?r = n \<and> description ?r = d \<and> price ?r = p
      \<and> icon ?r = (if ic = Some [] then None else ic) \<and> image ?r = uploads_path file"
    by (cases ic) (simp_all add: inserted_row_def or_null_def truthy_def)
  from run get fields
  show "\<exists>r w'.
            post_products_handler NoFault now
              \<lparr>name_field = Some n, description_field = Some d, price_field = Some p,
               icon_field = ic\<rparr> file w
              = (Json 200 True (Some Produit_ajoute) (OneProduct (Some r)), w')
          \<and> get_product NoFault (row_id r) w' = Json 200 True None (OneProduct (Some r))
          \<and> name r = n \<and> description r = d \<and> price r = p
          \<and> icon r = (if ic = Some [] then None else ic)
          \<and> image r = uploads_path file"
    by blast
qed

theorem get_by_id_round_trip_witness:
  "get_product NoFault 7 initDatabase = Json 404 False (Some Produit_non_trouve) NoPayload
   \<and> ids_below_counter initDatabase
   \<and> (\<exists>r w'.
          post_products_handler NoFault 100
            \<lparr>name_field = Some ''Tea'', description_field = Some ''Green tea'',
             price_field = Some ''3.50'', icon_field = Some ''*''\<rparr>
            (Some \<lparr>filename = ''1-2.png'', size = 3\<rparr>) initDatabase
            = (Json 200 True (Some Produit_ajoute) (OneProduct (Some r)), w')
        \<and> get_product NoFault (row_id r) w' = Json 200 True None (OneProduct (Some r))
        \<and> name r = ''Tea'' \<and> description r = ''Green tea'' \<and> price r = ''3.50''
        \<and> icon r = Some ''*'' \<and> image r = Some ''/uploads/1-2.png'')"
  using get_by_id_round_trip [of initDatabase 7 "''Tea''" "''Green tea''" "''3.50''" 100
      "Some ''*''" "Some \<lparr>filename = ''1-2.png'', size = 3\<rparr>"]
  by (simp add: initDatabase_def ids_below_counter_def uploads_path_def)

section \<open>The admin login\<close>




section \<open>Updating a product\<close>

text \<open>
  C2, as stated, at a concrete input: the row's image is \<^verbatim>\<open>/uploads/1730000000123-42.png\<close>
  and the new upload is given the same name (same millisecond, same random number, same
  extension). The middleware writes the new bytes over the old file, the handler then
  removes "the old image", which is that very file, and answers 200: the row's image is
  the generated path, but no file is stored there and fetching it gives 404.
\<close>

theorem update_image_collision_counterexample:
  "put_products NoFault 1730000000123 42 200 1
      \<lparr>name_field = Some ''Tea'', description_field = Some ''Green tea'',
       price_field = Some ''3.50'', icon_field = None\<rparr>
      (Some \<lparr>originalname = ''rose.png'', mimetype = ''image/png'', content = [137, 80, 78]\<rparr>)
      \<lparr>products_tbl = [inserted_row 1 ''Tea'' ''Green tea'' ''3.50'' None
           (Some ''/uploads/1730000000123-42.png'') 100],
       auto_increment = 2, admin_tbl = [],
       disk = [''/uploads/1730000000123-42.png'' \<mapsto> [9]]\<rparr>
     = (Json 200 True (Some Produit_modifie)
          (OneProduct (Some (inserted_row 1 ''Tea'' ''Green tea'' ''3.50'' None
             (Some ''/uploads/1730000000123-42.png'') 100))),
        \<lparr>products_tbl = [inserted_row 1 ''Tea'' ''Green tea'' ''3.50'' None
             (Some ''/uploads/1730000000123-42.png'') 100],
         auto_increment = 2, admin_tbl = [], disk = Map.empty\<rparr>)
   \<and> get_uploads ''/uploads/1730000000123-42.png''
        \<lparr>products_tbl = [inserted_row 1 ''Tea'' ''Green tea'' ''3.50'' None
             (Some ''/uploads/1730000000123-42.png'') 100],
         auto_increment = 2, admin_tbl = [], disk = Map.empty\<rparr>
     = ErrorPage 404"
  by (simp add: put_products_def upload_single_accepted rose_png_filter rose_png_name fileSize_def
      put_products_handler_def select_by_id_def unlink_image_NoFault update_product_def
      set_columns_def Let_def or_null_def truthy_def first_row_def inserted_row_def
      query_throws_def get_uploads_def)

text \<open>
  C2, amended. Let \<open>r\<close> be the row with the id of an update. An update with an image that
  the upload middleware accepts and with \<^verbatim>\<open>name\<close>, \<^verbatim>\<open>description\<close> and \<^verbatim>\<open>price\<close> succeeds when no
  storage call throws. After every update with an image that is answered 200, the row's
  \<^verbatim>\<open>image\<close> is the generated path and the file that \<^verbatim>\<open>image\<close> of \<open>r\<close> named is no longer on
  disk; the new bytes are stored at the generated path and are served from it, provided
  that path differs from the one \<open>r\<close> named. When the two paths are the same, the file
  just written is the one removed, and the path is answered 404. If the request brings no
  image, the row's \<^verbatim>\<open>image\<close> after the request is what it was before, whatever the body and
  whatever fails.
\<close>

theorem update_image_stored:
  "select_by_id i w = [r] \<longrightarrow>
     (fileFilter file \<and> length (content file) \<le> fileSize \<longrightarrow>
        (\<exists>pl w'. put_products NoFault dn rnd now i
             \<lparr>name_field = Some n, description_field = Some d, price_field = Some p,
              icon_field = ic\<rparr> (Some file) w
             = (Json 200 True (Some Produit_modifie) pl, w')))
     \<and> (\<forall>s m pl w'. put_products flt dn rnd now i b (Some file) w = (Json 200 s m pl, w') \<longrightarrow>
          map image (select_by_id i w') = [Some (''/uploads/'' @ storage_filename dn rnd file)]
        \<and> (\<forall>old. image r = Some old \<and> old \<noteq> [] \<longrightarrow> disk w' old = None)
        \<and> (image r \<noteq> Some (''/uploads/'' @ storage_filename dn rnd file) \<longrightarrow>
             disk w' (''/uploads/'' @ storage_filename dn rnd file) = Some (content file)
           \<and> get_uploads (''/uploads/'' @ storage_filename dn rnd file) w'
               = StaticFile (content file))
        \<and> (image r = Some (''/uploads/'' @ storage_filename dn rnd file) \<longrightarrow>
             get_uploads (''/uploads/'' @ storage_filename dn rnd file) w' = ErrorPage 404))
     \<and> map image (select_by_id i (snd (put_products flt dn rnd now i b None w))) = [image r]"
proof (rule impI)
  assume sel: "select_by_id i w = [r]"
  let ?new = "''/uploads/'' @ storage_filename dn rnd file"
  let ?f = "\<lparr>filename = storage_filename dn rnd file, size = length (content file)\<rparr>"
  let ?w0 = "w\<lparr>disk := (disk w)(?new \<mapsto> content file)\<rparr>"
  let ?b = "\<lparr>name_field = Some n, description_field = Some d, price_field = Some p,
              icon_field = ic\<rparr>"
  from sel have sel0: "select_by_id i ?w0 = [r]" by simp
  have part1: "fileFilter file \<and> length (content file) \<le> fileSize \<longrightarrow>
        (\<exists>pl w'. put_products NoFault dn rnd now i ?b (Some file) w
             = (Json 200 True (Some Produit_modifie) pl, w'))"
  proof
    assume ok: "fileFilter file \<and> length (content file) \<le> fileSize"
    then have up: "upload_single NoFault dn rnd (Some file) w = Inr (Some ?f, ?w0)"
      by (simp add: upload_single_accepted)
    define w1 where "w1 = (case image r of None \<Rightarrow> ?w0
             | Some q \<Rightarrow> if q = [] \<or> disk ?w0 q = None then ?w0
                 else ?w0\<lparr>disk := (disk ?w0)(q := None)\<rparr>)"
    have pair: "(Some ?new, w1) = (case Some ?f of None \<Rightarrow> (image r, ?w0)
        | Some f \<Rightarrow> (Some (''/uploads/'' @ filename f),
            case image r of None \<Rightarrow> ?w0
             | Some q \<Rightarrow> if q = [] \<or> disk ?w0 q = None then ?w0
                 else ?w0\<lparr>disk := (disk ?w0)(q := None)\<rparr>))"
      by (simp add: w1_def)
    from put_products_handler_ok [OF sel0 pair, of now n d p ic]
    obtain w2 where run: "put_products_handler NoFault now i ?b (Some ?f) ?w0
         = (Json 200 True (Some Produit_modifie)
              (OneProduct (Some (set_columns n d p (or_null ic) (Some ?new) now r))), w2)"
      by blast
    from up run have route: "put_products NoFault dn rnd now i ?b (Some file) w
         = (Json 200 True (Some Produit_modifie)
              (OneProduct (Some (set_columns n d p (or_null ic) (Some ?new) now r))), w2)"
      by (simp add: put_products_def)
    show "\<exists>pl w'. put_products NoFault dn rnd now i ?b (Some file) w
             = (Json 200 True (Some Produit_modifie) pl, w')"
      by (intro exI [of _ w2]
          exI [of _ "OneProduct (Some (set_columns n d p (or_null ic) (Some ?new) now r))"] route)
  qed
  have part2: "\<forall>s m pl w'. put_products flt dn rnd now i b (Some file) w = (Json 200 s m pl, w') \<longrightarrow>
          map image (select_by_id i w') = [Some ?new]
        \<and> (\<forall>old. image r = Some old \<and> old \<noteq> [] \<longrightarrow> disk w' old = None)
        \<and> (image r \<noteq> Some ?new \<longrightarrow>
             disk w' ?new = Some (content file)
           \<and> get_uploads ?new w' = StaticFile (content file))
        \<and> (image r = Some ?new \<longrightarrow> get_uploads ?new w' = ErrorPage 404)"
  proof (intro allI impI)
    fix s m pl w'
    assume run: "put_products flt dn rnd now i b (Some file) w = (Json 200 s m pl, w')"
    from run obtain x where up: "upload_single flt dn rnd (Some file) w = Inr x"
      by (cases "upload_single flt dn rnd (Some file) w") (simp_all add: put_products_def)
    from upload_single_Inr [OF up] have x: "x = (Some ?f, ?w0)" .
    from run up x have h: "put_products_handler flt now i b (Some ?f) ?w0 = (Json 200 s m pl, w')"
      by (simp add: put_products_def)
    from put_products_handler_200_image [OF h sel0]
    have img: "map image (select_by_id i w') = [Some ?new]"
      and dk: "disk w' = disk (case image r of None \<Rightarrow> ?w0
           | Some q \<Rightarrow> if q = [] \<or> disk ?w0 q = None then ?w0
               else ?w0\<lparr>disk := (disk ?w0)(q := None)\<rparr>)"
      by simp_all
    have gone: "\<forall>old. image r = Some old \<and> old \<noteq> [] \<longrightarrow> disk w' old = None"
      unfolding dk by auto
    have kept: "image r \<noteq> Some ?new \<longrightarrow>
             disk w' ?new = Some (content file)
           \<and> get_uploads ?new w' = StaticFile (content file)"
      unfolding dk get_uploads_def by (auto split: option.splits)
    have lost: "image r = Some ?new \<longrightarrow> get_uploads ?new w' = ErrorPage 404"
      unfolding dk get_uploads_def by simp
    show "map image (select_by_id i w') = [Some ?new]
        \<and> (\<forall>old. image r = Some old \<and> old \<noteq> [] \<longrightarrow> disk w' old = None)
        \<and> (image r \<noteq> Some ?new \<longrightarrow>
             disk w' ?new = Some (content file)
           \<and> get_uploads ?new w' = StaticFile (content file))
        \<and> (image r = Some ?new \<longrightarrow> get_uploads ?new w' = ErrorPage 404)"
      by (intro conjI img gone kept lost)
  qed
  have route: "put_products flt dn rnd now i b None w = put_products_handler flt now i b None w"
    by (simp add: put_products_def upload_single_def)
  have part3: "map image (select_by_id i (snd (put_products flt dn rnd now i b None w))) = [image r]"
  proof (cases "update_product (name_field b) (description_field b) (price_field b)
                  (or_null (icon_field b)) (image r) i now w")
    case None
    with sel show ?thesis unfolding route put_products_handler_def by simp
  next
    case (Some w2)
    from update_product_image [OF sel Some] sel Some show ?thesis
      unfolding route put_products_handler_def by simp
  qed
  show "(fileFilter file \<and> length (content file) \<le> fileSize \<longrightarrow>
        (\<exists>pl w'. put_products NoFault dn rnd now i ?b (Some file) w
             = (Json 200 True (Some Produit_modifie) pl, w')))
     \<and> (\<forall>s m pl w'. put_products flt dn rnd now i b (Some file) w = (Json 200 s m pl, w') \<longrightarrow>
          map image (select_by_id i w') = [Some ?new]
        \<and> (\<forall>old. image r = Some old \<and> old \<noteq> [] \<longrightarrow> disk w' old = None)
        \<and> (image r \<noteq> Some ?new \<longrightarrow>
             disk w' ?new = Some (content file)
           \<and> get_uploads ?new w' = StaticFile (content file))
        \<and> (image r = Some ?new \<longrightarrow> get_uploads ?new w' = ErrorPage 404))
     \<and> map image (select_by_id i (snd (put_products flt dn rnd now i b None w))) = [image r]"
    by (intro conjI part1 part2 part3)
qed

theorem update_image_stored_witness:
  "select_by_id 1
      \<lparr>products_tbl = [inserted_row 1 ''Tea'' ''Green tea'' ''3.50'' None (Some ''/uploads/1-2.png'') 100],
       auto_increment = 2, admin_tbl = [], disk = [''/uploads/1-2.png'' \<mapsto> [9]]\<rparr>
     = [inserted_row 1 ''Tea'' ''Green tea'' ''3.50'' None (Some ''/uploads/1-2.png'') 100]
   \<and> fileFilter \<lparr>originalname = ''rose.png'', mimetype = ''image/png'', content = [137, 80, 78]\<rparr>
   \<and> length (content \<lparr>originalname = ''rose.png'', mimetype = ''image/png'',
         content = [137, 80, 78]\<rparr>) \<le> fileSize
   \<and> (\<exists>pl w'. put_products NoFault 1730000000123 42 200 1
          \<lparr>name_field = Some ''Tea'', description_field = Some ''Green tea'',
           price_field = Some ''3.50'', icon_field = None\<rparr>
          (Some \<lparr>originalname = ''rose.png'', mimetype = ''image/png'', content = [137, 80, 78]\<rparr>)
          \<lparr>products_tbl = [inserted_row 1 ''Tea'' ''Green tea'' ''3.50'' None (Some ''/uploads/1-2.png'') 100],
           auto_increment = 2, admin_tbl = [], disk = [''/uploads/1-2.png'' \<mapsto> [9]]\<rparr>
          = (Json 200 True (Some Produit_modifie) pl, w')
        \<and> map image (select_by_id 1 w') = [Some ''/uploads/1730000000123-42.png'']
        \<and> disk w' ''/uploads/1-2.png'' = None
        \<and> disk w' ''/uploads/1730000000123-42.png'' = Some [137, 80, 78]
        \<and> get_uploads ''/uploads/1730000000123-42.png'' w' = StaticFile [137, 80, 78])
   \<and> map image (select_by_id 1 (snd (put_products (QueryFails 3) 1730000000123 42 200 1
          \<lparr>name_field = Some ''Tea'', description_field = Some ''Green tea'',
           price_field = Some ''3.50'', icon_field = None\<rparr> None
          \<lparr>products_tbl = [inserted_row 1 ''Tea'' ''Green tea'' ''3.50'' None (Some ''/uploads/1-2.png'') 100],
           auto_increment = 2, admin_tbl = [], disk = [''/uploads/1-2.png'' \<mapsto> [9]]\<rparr>)))
       = [Some ''/uploads/1-2.png'']"
proof -
  let ?R = "inserted_row 1 ''Tea'' ''Green tea'' ''3.50'' None (Some ''/uploads/1-2.png'') 100"
  let ?W = "\<lparr>products_tbl = [?R], auto_increment = 2, admin_tbl = [],
             disk = [''/uploads/1-2.png'' \<mapsto> [9]]\<rparr>"
  let ?F = "\<lparr>originalname = ''rose.png'', mimetype = ''image/png'', content = [137, 80, 78]\<rparr>"
  let ?B = "\<lparr>name_field = Some ''Tea'', description_field = Some ''Green tea'',
           price_field = Some ''3.50'', icon_field = None\<rparr>"
  have sel: "select_by_id 1 ?W = [?R]" by (simp add: select_by_id_def inserted_row_def)
  have ff: "fileFilter ?F" by (rule rose_png_filter)
  have sz: "length (content ?F) \<le> fileSize" by (simp add: fileSize_def)
  have img: "image ?R = Some ''/uploads/1-2.png''" by (simp add: inserted_row_def)
  note t = mp [OF update_image_stored [of 1 ?W ?R ?F 1730000000123 42 200 "''Tea''" "''Green tea''"
        "''3.50''" None NoFault ?B] sel]
  note u = mp [OF update_image_stored [of 1 ?W ?R ?F 1730000000123 42 200 "''Tea''" "''Green tea''"
        "''3.50''" None "QueryFails 3" ?B] sel]
  from mp [OF conjunct1 [OF t] conjI [OF ff sz]]
  obtain pl w' where a: "put_products NoFault 1730000000123 42 200 1 ?B (Some ?F) ?W
          = (Json 200 True (Some Produit_modifie) pl, w')"
    by (elim exE)
  note props = mp [OF spec [OF spec [OF spec [OF spec [OF conjunct1 [OF conjunct2 [OF t]]]]]] a]
  from conjunct1 [OF props]
  have b: "map image (select_by_id 1 w') = [Some ''/uploads/1730000000123-42.png'']"
    by (simp add: rose_png_name)
  from conjunct1 [OF conjunct2 [OF props]] img
  have c: "disk w' ''/uploads/1-2.png'' = None" by simp
  from conjunct1 [OF conjunct2 [OF conjunct2 [OF props]]] img
  have d: "disk w' ''/uploads/1730000000123-42.png'' = Some [137, 80, 78]
      \<and> get_uploads ''/uploads/1730000000123-42.png'' w' = StaticFile [137, 80, 78]"
    by (simp add: rose_png_name)
  from conjunct2 [OF conjunct2 [OF u]] img
  have e: "map image (select_by_id 1 (snd (put_products (QueryFails 3) 1730000000123 42 200 1 ?B None ?W)))
       = [Some ''/uploads/1-2.png'']" by simp
  show ?thesis
    by (intro conjI exI [of _ pl] exI [of _ w'] sel ff sz a b c conjunct1 [OF d] conjunct2 [OF d] e)
qed

text \<open>
  C9, as stated, at a concrete input: an update with the empty string as \<^verbatim>\<open>icon\<close> writes
  \<^verbatim>\<open>NULL\<close> to the row (line 186, \<^verbatim>\<open>icon || null\<close>), not the value supplied.
\<close>

theorem update_icon_counterexample:
  "put_products_handler NoFault 200 1
      \<lparr>name_field = Some ''Tea'', description_field = Some ''Green tea'',
       price_field = Some ''3.50'', icon_field = Some []\<rparr> None
      \<lparr>products_tbl = [inserted_row 1 ''Tea'' ''Green tea'' ''3.50'' (Some ''*'') None 100],
       auto_increment = 2, admin_tbl = [], disk = Map.empty\<rparr>
     = (Json 200 True (Some Produit_modifie)
          (OneProduct (Some \<lparr>row_id = 1, name = ''Tea'', description = ''Green tea'',
             price = ''3.50'', icon = None, image = None, created_at = 100, updated_at = 200\<rparr>)),
        \<lparr>products_tbl = [\<lparr>row_id = 1, name = ''Tea'', description = ''Green tea'',
             price = ''3.50'', icon = None, image = None, created_at = 100, updated_at = 200\<rparr>],
         auto_increment = 2, admin_tbl = [], disk = Map.empty\<rparr>)
   \<and> icon \<lparr>row_id = 1, name = ''Tea'', description = ''Green tea'',
             price = ''3.50'', icon = None, image = None, created_at = 100, updated_at = 200\<rparr>
       \<noteq> Some []"
  by (simp add: put_products_handler_def select_by_id_def update_product_def set_columns_def
      Let_def or_null_def truthy_def first_row_def inserted_row_def query_throws_def)

text \<open>
  C9, amended. The PUT handler has no presence check: for the row \<open>r\<close> with the id of
  the update and any strings \<^verbatim>\<open>name\<close>, \<^verbatim>\<open>description\<close>, \<^verbatim>\<open>price\<close>, empty ones included, the
  update answers 200 (no storage call throwing) and the row then holds exactly these
  three values; its \<^verbatim>\<open>icon\<close> is the value supplied, except that an empty or missing icon
  is written as \<^verbatim>\<open>NULL\<close>.
\<close>

theorem update_without_validation:
  "select_by_id i w = [r] \<longrightarrow>
     (\<exists>r' w'. put_products_handler NoFault now i
          \<lparr>name_field = Some n, description_field = Some d, price_field = Some p,
           icon_field = ic\<rparr> file w
          = (Json 200 True (Some Produit_modifie) (OneProduct (Some r')), w')
        \<and> select_by_id i w' = [r']
        \<and> name r' = n \<and> description r' = d \<and> price r' = p
        \<and> icon r' = (if ic = Some [] then None else ic))"
proof
  assume sel: "select_by_id i w = [r]"
  define im where "im = (case file of None \<Rightarrow> image r
        | Some f \<Rightarrow> Some (''/uploads/'' @ filename f))"
  define w1 where "w1 = (case file of None \<Rightarrow> w
        | Some f \<Rightarrow> (case image r of None \<Rightarrow> w
             | Some q \<Rightarrow> if q = [] \<or> disk w q = None then w else w\<lparr>disk := (disk w)(q := None)\<rparr>))"
  have pair: "(im, w1) = (case file of None \<Rightarrow> (image r, w)
        | Some f \<Rightarrow> (Some (''/uploads/'' @ filename f),
            case image r of None \<Rightarrow> w
             | Some q \<Rightarrow> if q = [] \<or> disk w q = None then w else w\<lparr>disk := (disk w)(q := None)\<rparr>))"
    by (simp add: im_def w1_def split: option.splits)
  define r' where "r' = set_columns n d p (or_null ic) im now r"
  from put_products_handler_ok [OF sel pair, of now n d p ic]
  obtain w2 where run: "put_products_handler NoFault now i
          \<lparr>name_field = Some n, description_field = Some d, price_field = Some p,
           icon_field = ic\<rparr> file w
         = (Json 200 True (Some Produit_modifie) (OneProduct (Some r')), w2)"
    and sel2: "select_by_id i w2 = [r']" unfolding r'_def by blast
  have f1: "name r' = n" and f2: "description r' = d" and f3: "price r' = p"
    and f4: "icon r' = or_null ic"
    unfolding r'_def by (simp_all add: set_columns_fields)
  from f4 have f5: "icon r' = (if ic = Some [] then None else ic)"
    by (simp only: or_null_cases)
  show "\<exists>r' w'. put_products_handler NoFault now i
          \<lparr>name_field = Some n, description_field = Some d, price_field = Some p,
           icon_field = ic\<rparr> file w
          = (Json 200 True (Some Produit_modifie) (OneProduct (Some r')), w')
        \<and> select_by_id i w' = [r']
        \<and> name r' = n \<and> description r' = d \<and> price r' = p
        \<and> icon r' = (if ic = Some [] then None else ic)"
    by (intro exI [of _ r'] exI [of _ w2] conjI run sel2 f1 f2 f3 f5)
qed

theorem update_without_validation_witness:
  "select_by_id 1
      \<lparr>products_tbl = [inserted_row 1 ''Tea'' ''Green tea'' ''3.50'' (Some ''*'') None 100],
       auto_increment = 2, admin_tbl = [], disk = Map.empty\<rparr>
     = [inserted_row 1 ''Tea'' ''Green tea'' ''3.50'' (Some ''*'') None 100]
   \<and> (\<exists>r' w'. put_products_handler NoFault 200 1
          \<lparr>name_field = Some [], description_field = Some [], price_field = Some [],
           icon_field = Some ''+''\<rparr> None
          \<lparr>products_tbl = [inserted_row 1 ''Tea'' ''Green tea'' ''3.50'' (Some ''*'') None 100],
           auto_increment = 2, admin_tbl = [], disk = Map.empty\<rparr>
          = (Json 200 True (Some Produit_modifie) (OneProduct (Some r')), w')
        \<and> select_by_id 1 w' = [r']
        \<and> name r' = [] \<and> description r' = [] \<and> price r' = []
        \<and> icon r' = Some ''+'')"
  using update_without_validation [of 1
      "\<lparr>products_tbl = [inserted_row 1 ''Tea'' ''Green tea'' ''3.50'' (Some ''*'') None 100],
       auto_increment = 2, admin_tbl = [], disk = Map.empty\<rparr>"
      "inserted_row 1 ''Tea'' ''Green tea'' ''3.50'' (Some ''*'') None 100"
      200 "[]" "[]" "[]" "Some ''+''" None]
  by (simp add: select_by_id_def inserted_row_def)

section \<open>Unknown ids\<close>

text \<open>
  C10, as stated, at a concrete input: a PUT for an id that no row has, carrying an image
  that the upload middleware accepts, is answered 404, but the middleware has already
  written the file: a file has been created in the uploads directory.
\<close>

theorem not_found_upload_counterexample:
  "select_by_id 7 initDatabase = []
   \<and> put_products NoFault 1730000000123 42 200 7
        \<lparr>name_field = Some ''Tea'', description_field = Some ''Green tea'',
         price_field = Some ''3.50'', icon_field = None\<rparr>
        (Some \<lparr>originalname = ''rose.png'', mimetype = ''image/png'', content = [137, 80, 78]\<rparr>)
        initDatabase
     = (Json 404 False (Some Produit_non_trouve) NoPayload,
        initDatabase\<lparr>disk := [''/uploads/1730000000123-42.png'' \<mapsto> [137, 80, 78]]\<rparr>)
   \<and> disk initDatabase ''/uploads/1730000000123-42.png'' = None
   \<and> disk (initDatabase\<lparr>disk := [''/uploads/1730000000123-42.png'' \<mapsto> [137, 80, 78]]\<rparr>)
        ''/uploads/1730000000123-42.png'' = Some [137, 80, 78]"
  by (simp add: put_products_def upload_single_accepted rose_png_filter rose_png_name fileSize_def
      put_products_handler_def select_by_id_def initDatabase_def query_throws_def)

text \<open>
  C10, amended. For an id that no row has, DELETE and PUT answer 404 and the products
  table is as before. DELETE, and a PUT without a file part, leave the whole state
  unchanged (also when the existence query itself throws). A PUT with an accepted file
  part has stored that file under its generated name before the handler looks for the
  row; nothing else on disk changes.
\<close>

theorem not_found_state:
  "select_by_id i w = [] \<longrightarrow>
     delete_products NoFault i w = (Json 404 False (Some Produit_non_trouve) NoPayload, w)
     \<and> snd (delete_products flt i w) = w
     \<and> put_products NoFault dn rnd now i b None w
         = (Json 404 False (Some Produit_non_trouve) NoPayload, w)
     \<and> snd (put_products flt dn rnd now i b None w) = w
     \<and> (fileFilter file \<and> length (content file) \<le> fileSize \<longrightarrow>
          put_products NoFault dn rnd now i b (Some file) w
            = (Json 404 False (Some Produit_non_trouve) NoPayload,
               w\<lparr>disk := (disk w)(''/uploads/'' @ storage_filename dn rnd file \<mapsto> content file)\<rparr>))"
  by (simp add: delete_products_def put_products_def put_products_handler_def query_throws_def
      upload_single_def Let_def)

theorem not_found_state_witness:
  "select_by_id 7 initDatabase = []
   \<and> delete_products NoFault 7 initDatabase
       = (Json 404 False (Some Produit_non_trouve) NoPayload, initDatabase)
   \<and> snd (delete_products (QueryFails 1) 7 initDatabase) = initDatabase
   \<and> put_products NoFault 1730000000123 42 200 7
        \<lparr>name_field = Some ''Tea'', description_field = Some ''Green tea'',
         price_field = Some ''3.50'', icon_field = None\<rparr> None initDatabase
       = (Json 404 False (Some Produit_non_trouve) NoPayload, initDatabase)
   \<and> snd (put_products (QueryFails 1) 1730000000123 42 200 7
        \<lparr>name_field = Some ''Tea'', description_field = Some ''Green tea'',
         price_field = Some ''3.50'', icon_field = None\<rparr> None initDatabase) = initDatabase
   \<and> fileFilter \<lparr>originalname = ''rose.png'', mimetype = ''image/png'', content = [137, 80, 78]\<rparr>
   \<and> length (content \<lparr>originalname = ''rose.png'', mimetype = ''image/png'',
         content = [137, 80, 78]\<rparr>) \<le> fileSize
   \<and> put_products NoFault 1730000000123 42 200 7
        \<lparr>name_field = Some ''Tea'', description_field = Some ''Green tea'',
         price_field = Some ''3.50'', icon_field = None\<rparr>
        (Some \<lparr>originalname = ''rose.png'', mimetype = ''image/png'', content = [137, 80, 78]\<rparr>)
        initDatabase
       = (Json 404 False (Some Produit_non_trouve) NoPayload,
          initDatabase\<lparr>disk := (disk initDatabase)(''/uploads/1730000000123-42.png'' \<mapsto> [137, 80, 78])\<rparr>)"
  using not_found_state [of 7 initDatabase "QueryFails 1" 1730000000123 42 200
      "\<lparr>name_field = Some ''Tea'', description_field = Some ''Green tea'',
         price_field = Some ''3.50'', icon_field = None\<rparr>"
      "\<lparr>originalname = ''rose.png'', mimetype = ''image/png'', content = [137, 80, 78]\<rparr>"]
    rose_png_filter
  by (simp add: rose_png_name fileSize_def select_by_id_def initDatabase_def)

section \<open>Deleting a product\<close>

text \<open>
  C3. An id that no row has is answered 404. Otherwise (\<open>r\<close> the first row with that id,
  no storage call throwing) the delete answers 200, and afterwards reading the id gives
  404 and fetching the path that \<^verbatim>\<open>image\<close> of \<open>r\<close> held gives 404. The file goes before the
  row: if \<^verbatim>\<open>fs.unlinkSync\<close> throws nothing has been deleted, and if the \<^verbatim>\<open>DELETE\<close> statement
  throws the file is already gone while the table still has the row.
\<close>

theorem delete_removes_row_and_file:
  "((\<forall>x \<in> set (products_tbl w). row_id x \<noteq> i)
      \<longrightarrow> delete_products NoFault i w = (Json 404 False (Some Produit_non_trouve) NoPayload, w))
   \<and> (select_by_id i w = r # rs \<longrightarrow>
        (\<exists>w'. delete_products NoFault i w = (Json 200 True (Some Produit_supprime) NoPayload, w')
           \<and> get_product NoFault i w' = Json 404 False (Some Produit_non_trouve) NoPayload
           \<and> (\<forall>q. image r = Some q \<and> q \<noteq> [] \<longrightarrow> get_uploads q w' = ErrorPage 404))
      \<and> (\<forall>q. image r = Some q \<and> q \<noteq> [] \<and> disk w q \<noteq> None \<longrightarrow>
           delete_products UnlinkFails i w
             = (Json 500 False (Some Erreur_suppression) NoPayload, w)
         \<and> delete_products (QueryFails 2) i w
             = (Json 500 False (Some Erreur_suppression) NoPayload,
                w\<lparr>disk := (disk w)(q := None)\<rparr>)))"
proof (intro conjI impI allI)
  assume "\<forall>x \<in> set (products_tbl w). row_id x \<noteq> i"
  then have "select_by_id i w = []" by (simp add: select_by_id_def filter_empty_conv)
  then show "delete_products NoFault i w = (Json 404 False (Some Produit_non_trouve) NoPayload, w)"
    by (simp add: delete_products_def query_throws_def)
next
  assume sel: "select_by_id i w = r # rs"
  let ?w1 = "case image r of None \<Rightarrow> w
             | Some p \<Rightarrow> if p = [] \<or> disk w p = None then w else w\<lparr>disk := (disk w)(p := None)\<rparr>"
  let ?w' = "delete_product i ?w1"
  from sel have run: "delete_products NoFault i w
      = (Json 200 True (Some Produit_supprime) NoPayload, ?w')"
    by (simp add: delete_products_def query_throws_def unlink_image_NoFault)
  have "select_by_id i ?w' = []"
    by (simp add: select_by_id_def delete_product_def)
  then have get: "get_product NoFault i ?w' = Json 404 False (Some Produit_non_trouve) NoPayload"
    by (simp add: get_product_def query_throws_def)
  have gone: "\<forall>q. image r = Some q \<and> q \<noteq> [] \<longrightarrow> get_uploads q ?w' = ErrorPage 404"
    by (auto simp: get_uploads_def delete_product_def)
  from run get gone
  show "\<exists>w'. delete_products NoFault i w = (Json 200 True (Some Produit_supprime) NoPayload, w')
           \<and> get_product NoFault i w' = Json 404 False (Some Produit_non_trouve) NoPayload
           \<and> (\<forall>q. image r = Some q \<and> q \<noteq> [] \<longrightarrow> get_uploads q w' = ErrorPage 404)"
    by (intro exI [of _ ?w']) simp
next
  fix q
  assume sel: "select_by_id i w = r # rs"
    and img: "image r = Some q \<and> q \<noteq> [] \<and> disk w q \<noteq> None"
  then show "delete_products UnlinkFails i w
             = (Json 500 False (Some Erreur_suppression) NoPayload, w)"
    by (auto simp: delete_products_def query_throws_def unlink_image_def path_join_dirname_def)
  from sel img show "delete_products (QueryFails 2) i w
             = (Json 500 False (Some Erreur_suppression) NoPayload,
                w\<lparr>disk := (disk w)(q := None)\<rparr>)"
    by (auto simp: delete_products_def query_throws_def unlink_image_def path_join_dirname_def)
qed

theorem delete_removes_row_and_file_witness:
  "delete_products NoFault 7
        \<lparr>products_tbl = [inserted_row 1 ''Tea'' ''Green tea'' ''3.50'' None (Some ''/uploads/1-2.png'') 100],
         auto_increment = 2, admin_tbl = [], disk = [''/uploads/1-2.png'' \<mapsto> [9]]\<rparr>
       = (Json 404 False (Some Produit_non_trouve) NoPayload,
          \<lparr>products_tbl = [inserted_row 1 ''Tea'' ''Green tea'' ''3.50'' None (Some ''/uploads/1-2.png'') 100],
           auto_increment = 2, admin_tbl = [], disk = [''/uploads/1-2.png'' \<mapsto> [9]]\<rparr>)
   \<and> select_by_id 1
        \<lparr>products_tbl = [inserted_row 1 ''Tea'' ''Green tea'' ''3.50'' None (Some ''/uploads/1-2.png'') 100],
         auto_increment = 2, admin_tbl = [], disk = [''/uploads/1-2.png'' \<mapsto> [9]]\<rparr>
       = [inserted_row 1 ''Tea'' ''Green tea'' ''3.50'' None (Some ''/uploads/1-2.png'') 100]
   \<and> (\<exists>w'. delete_products NoFault 1
          \<lparr>products_tbl = [inserted_row 1 ''Tea'' ''Green tea'' ''3.50'' None (Some ''/uploads/1-2.png'') 100],
           auto_increment = 2, admin_tbl = [], disk = [''/uploads/1-2.png'' \<mapsto> [9]]\<rparr>
          = (Json 200 True (Some Produit_supprime) NoPayload, w')
        \<and> get_product NoFault 1 w' = Json 404 False (Some Produit_non_trouve) NoPayload
        \<and> get_uploads ''/uploads/1-2.png'' w' = ErrorPage 404)
   \<and> delete_products UnlinkFails 1
        \<lparr>products_tbl = [inserted_row 1 ''Tea'' ''Green tea'' ''3.50'' None (Some ''/uploads/1-2.png'') 100],
         auto_increment = 2, admin_tbl = [], disk = [''/uploads/1-2.png'' \<mapsto> [9]]\<rparr>
       = (Json 500 False (Some Erreur_suppression) NoPayload,
          \<lparr>products_tbl = [inserted_row 1 ''Tea'' ''Green tea'' ''3.50'' None (Some ''/uploads/1-2.png'') 100],
           auto_increment = 2, admin_tbl = [], disk = [''/uploads/1-2.png'' \<mapsto> [9]]\<rparr>)
   \<and> delete_products (QueryFails 2) 1
        \<lparr>products_tbl = [inserted_row 1 ''Tea'' ''Green tea'' ''3.50'' None (Some ''/uploads/1-2.png'') 100],
         auto_increment = 2, admin_tbl = [], disk = [''/uploads/1-2.png'' \<mapsto> [9]]\<rparr>
       = (Json 500 False (Some Erreur_suppression) NoPayload,
          \<lparr>products_tbl = [inserted_row 1 ''Tea'' ''Green tea'' ''3.50'' None (Some ''/uploads/1-2.png'') 100],
           auto_increment = 2, admin_tbl = [], disk = Map.empty\<rparr>)"
proof -
  let ?R = "inserted_row 1 ''Tea'' ''Green tea'' ''3.50'' None (Some ''/uploads/1-2.png'') 100"
  let ?W = "\<lparr>products_tbl = [?R], auto_increment = 2, admin_tbl = [],
             disk = [''/uploads/1-2.png'' \<mapsto> [9]]\<rparr>"
  have none: "\<forall>x \<in> set (products_tbl ?W). row_id x \<noteq> 7" by (simp add: inserted_row_def)
  have sel: "select_by_id 1 ?W = [?R]" by (simp add: select_by_id_def inserted_row_def)
  have img: "image ?R = Some ''/uploads/1-2.png'' \<and> ''/uploads/1-2.png'' \<noteq> []
      \<and> disk ?W ''/uploads/1-2.png'' \<noteq> None"
    by (simp add: inserted_row_def)
  note t7 = mp [OF conjunct1 [OF delete_removes_row_and_file [of ?W 7 ?R "[]"]] none]
  note t1 = mp [OF conjunct2 [OF delete_removes_row_and_file [of ?W 1 ?R "[]"]] sel]
  from conjunct1 [OF t1] obtain w' where
    a: "delete_products NoFault 1 ?W = (Json 200 True (Some Produit_supprime) NoPayload, w')"
    and b: "get_product NoFault 1 w' = Json 404 False (Some Produit_non_trouve) NoPayload"
    and c: "\<forall>q. image ?R = Some q \<and> q \<noteq> [] \<longrightarrow> get_uploads q w' = ErrorPage 404"
    by (elim exE conjE)
  from c img have c': "get_uploads ''/uploads/1-2.png'' w' = ErrorPage 404" by blast
  note o = mp [OF spec [OF conjunct2 [OF t1], of "''/uploads/1-2.png''"] img]
  have d: "?W\<lparr>disk := (disk ?W)(''/uploads/1-2.png'' := None)\<rparr>
      = \<lparr>products_tbl = [?R], auto_increment = 2, admin_tbl = [], disk = Map.empty\<rparr>"
    by simp
  show ?thesis
    by (intro conjI exI [of _ w'] t7 sel a b c' conjunct1 [OF o]
        conjunct2 [OF o, unfolded d])
qed

section \<open>The media store\<close>

lemma upload_single_accepts_iff:
  "(\<exists>x. upload_single NoFault dn rnd (Some file) w = Inr x)
     \<longleftrightarrow> filetypes_test (mimetype file)
        \<and> filetypes_test (toLowerCase (extname (originalname file)))
        \<and> length (content file) \<le> fileSize"
  by (auto simp: upload_single_def fileFilter_def Let_def)

lemma renamed_txt_rejected:
  "upload_single flt dn rnd
     (Some \<lparr>originalname = ''notes.png'', mimetype = ''text/plain'', content = [104, 105]\<rparr>) w
   = Inl Seules_les_images"
  by (simp add: upload_single_rejected renamed_txt_filter)

text \<open>
  C6. The claim has the store reject every file whose declared type or extension is
  outside the allow-list. The \<^verbatim>\<open>fileFilter\<close> of the source tests both strings with an
  unanchored pattern, so it only asks that one of the five words occurs somewhere in
  them: the two-byte file \<^verbatim>\<open>notes.pngx\<close>, declared \<^verbatim>\<open>image/png\<close>, has the extension
  \<^verbatim>\<open>.pngx\<close>, which is not in the allow-list, and is accepted and written to disk.
  (A file the allow-list admits always passes the filter, \<open>allow_list_passes_filter\<close>,
  and a file over 5 MiB is always refused, \<open>upload_single_too_large\<close>.)
\<close>

theorem upload_accepts_outside_allow_list:
  "upload_single NoFault 1730000000123 42
      (Some \<lparr>originalname = ''notes.pngx'', mimetype = ''image/png'', content = [104, 105]\<rparr>)
      initDatabase
     = Inr (Some \<lparr>filename = ''1730000000123-42.pngx'', size = 2\<rparr>,
            initDatabase\<lparr>disk := [''/uploads/1730000000123-42.pngx'' \<mapsto> [104, 105]]\<rparr>)
   \<and> \<not> extension_in_allow_list ''notes.pngx''
   \<and> extname ''notes.pngx'' = ''.pngx''"
  by (simp add: upload_single_accepted notes_pngx_filter notes_pngx_name notes_pngx_extension
      fileSize_def initDatabase_def extname_def last_portion_def)

text \<open>
  C7, as stated, at a concrete input: two accepted uploads that arrive in the same
  millisecond and draw the same random number receive the same name, and the second file
  replaces the first on disk.
\<close>

theorem same_instant_same_name_counterexample:
  "upload_single NoFault 1730000000123 42
      (Some \<lparr>originalname = ''rose.png'', mimetype = ''image/png'', content = [137, 80, 78]\<rparr>)
      initDatabase
     = Inr (Some \<lparr>filename = ''1730000000123-42.png'', size = 3\<rparr>,
            initDatabase\<lparr>disk := [''/uploads/1730000000123-42.png'' \<mapsto> [137, 80, 78]]\<rparr>)
   \<and> upload_single NoFault 1730000000123 42
      (Some \<lparr>originalname = ''lily.png'', mimetype = ''image/png'', content = [71, 73]\<rparr>)
      (initDatabase\<lparr>disk := [''/uploads/1730000000123-42.png'' \<mapsto> [137, 80, 78]]\<rparr>)
     = Inr (Some \<lparr>filename = ''1730000000123-42.png'', size = 2\<rparr>,
            initDatabase\<lparr>disk := [''/uploads/1730000000123-42.png'' \<mapsto> [71, 73]]\<rparr>)"
  by (simp add: upload_single_accepted rose_png_filter rose_png_name lily_png_filter lily_png_name
      fileSize_def initDatabase_def)

text \<open>
  C7, amended. The stored name is the millisecond clock in decimal, a dash, the random
  integer in decimal, and the extension of the original name; its own extension is the
  original one. Two generated names are equal exactly when clock, random integer and
  extension are all equal, so uploads that differ in one of them never share a name; and
  an accepted upload is stored under its generated name.
\<close>

theorem storage_filename_distinct:
  "storage_filename t k f
     = number_to_string t @ ''-'' @ number_to_string k @ extname (originalname f)
   \<and> extname (storage_filename t k f) = extname (originalname f)
   \<and> (storage_filename t k f = storage_filename t' k' f'
        \<longleftrightarrow> t = t' \<and> k = k' \<and> extname (originalname f) = extname (originalname f'))
   \<and> (fileFilter f \<and> length (content f) \<le> fileSize \<longrightarrow>
        upload_single NoFault t k (Some f) w
          = Inr (Some \<lparr>filename = storage_filename t k f, size = length (content f)\<rparr>,
                 w\<lparr>disk := (disk w)(''/uploads/'' @ storage_filename t k f \<mapsto> content f)\<rparr>))"
proof (intro conjI impI)
  show "storage_filename t k f
     = number_to_string t @ ''-'' @ number_to_string k @ extname (originalname f)"
    by (simp add: storage_filename_def)
  show "extname (storage_filename t k f) = extname (originalname f)"
    by (rule extname_storage_filename)
  show "storage_filename t k f = storage_filename t' k' f'
        \<longleftrightarrow> t = t' \<and> k = k' \<and> extname (originalname f) = extname (originalname f')"
  proof
    assume "storage_filename t k f = storage_filename t' k' f'"
    then show "t = t' \<and> k = k' \<and> extname (originalname f) = extname (originalname f')"
      by (rule storage_filename_inj)
  next
    assume "t = t' \<and> k = k' \<and> extname (originalname f) = extname (originalname f')"
    then show "storage_filename t k f = storage_filename t' k' f'"
      by (simp add: storage_filename_def)
  qed
next
  assume "fileFilter f \<and> length (content f) \<le> fileSize"
  then show "upload_single NoFault t k (Some f) w
          = Inr (Some \<lparr>filename = storage_filename t k f, size = length (content f)\<rparr>,
                 w\<lparr>disk := (disk w)(''/uploads/'' @ storage_filename t k f \<mapsto> content f)\<rparr>)"
    by (simp add: upload_single_accepted)
qed

theorem storage_filename_distinct_witness:
  "storage_filename 1730000000123 42
      \<lparr>originalname = ''rose.png'', mimetype = ''image/png'', content = [137, 80, 78]\<rparr>
     = ''1730000000123-42.png''
   \<and> extname (storage_filename 1730000000123 42
      \<lparr>originalname = ''rose.png'', mimetype = ''image/png'', content = [137, 80, 78]\<rparr>) = ''.png''
   \<and> storage_filename 1730000000123 42
      \<lparr>originalname = ''rose.png'', mimetype = ''image/png'', content = [137, 80, 78]\<rparr>
     \<noteq> storage_filename 1730000000124 42
      \<lparr>originalname = ''rose.png'', mimetype = ''image/png'', content = [137, 80, 78]\<rparr>
   \<and> upload_single NoFault 1730000000123 42
      (Some \<lparr>originalname = ''rose.png'', mimetype = ''image/png'', content = [137, 80, 78]\<rparr>)
      initDatabase
     = Inr (Some \<lparr>filename = ''1730000000123-42.png'', size = 3\<rparr>,
            initDatabase\<lparr>disk := (disk initDatabase)(''/uploads/1730000000123-42.png'' \<mapsto> [137, 80, 78])\<rparr>)"
proof -
  let ?F = "\<lparr>originalname = ''rose.png'', mimetype = ''image/png'', content = [137, 80, 78]\<rparr>"
  note t = storage_filename_distinct [of 1730000000123 42 ?F 1730000000124 42 ?F initDatabase]
  have ok: "fileFilter ?F \<and> length (content ?F) \<le> fileSize"
    by (simp add: rose_png_filter fileSize_def)
  have ext: "extname (originalname ?F) = ''.png''"
    by (simp add: extname_def last_portion_def)
  from conjunct1 [OF conjunct2 [OF t]] ext
  have b: "extname (storage_filename 1730000000123 42 ?F) = ''.png''" by simp
  from conjunct1 [OF conjunct2 [OF conjunct2 [OF t]]]
  have c: "storage_filename 1730000000123 42 ?F \<noteq> storage_filename 1730000000124 42 ?F"
    by simp
  from mp [OF conjunct2 [OF conjunct2 [OF conjunct2 [OF t]]] ok]
  have d: "upload_single NoFault 1730000000123 42 (Some ?F) initDatabase
     = Inr (Some \<lparr>filename = ''1730000000123-42.png'', size = 3\<rparr>,
            initDatabase\<lparr>disk := (disk initDatabase)(''/uploads/1730000000123-42.png'' \<mapsto> [137, 80, 78])\<rparr>)"
    by (simp add: rose_png_name)
  show ?thesis by (intro conjI rose_png_name b c d)
qed

end
